theory Spec2Isabelle
  imports Complex_Main "HOL-Library.Word" "HOL-Library.Sublist"
begin

section \<open>JavaScript values used by \<open>bash-tools.ts\<close>\<close>

text \<open>
  A JavaScript string is a sequence of UTF-16 code units; \<open>.length\<close> counts code units.
  String literals of the source are ASCII and are injected with \<open>js\<close>.
\<close>

type_synonym code_unit = "16 word"
type_synonym jstring = "code_unit list"

definition js :: "string \<Rightarrow> jstring" where
  "js s = map (\<lambda>c. of_nat (of_char c)) s"

definition LF :: code_unit where
  "LF = 10"

definition CR :: code_unit where
  "CR = 13"

text \<open>
  A JavaScript number. Finite values are kept as exact rationals (every finite double is
  one); the three non-finite values are separate constructors because the source tests
  \<open>Number.isFinite\<close>. Rounding of sums beyond \<open>2^53\<close> is not modelled: it only occurs for
  indices far past the end of any array, where \<open>Array.prototype.slice\<close> clamps anyway.
  Where a number is printed, the digits are those of the double.
\<close>

datatype js_number = Fin rat | NaN | PosInf | NegInf

fun isFinite :: "js_number \<Rightarrow> bool" where
  "isFinite (Fin q) = True"
| "isFinite _ = False"

fun math_floor :: "js_number \<Rightarrow> js_number" where
  "math_floor (Fin q) = Fin (of_int \<lfloor>q\<rfloor>)"
| "math_floor n = n"

text \<open>\<open>Math.max(a, b)\<close>: \<open>NaN\<close> if either argument is \<open>NaN\<close>.\<close>

fun math_max :: "js_number \<Rightarrow> js_number \<Rightarrow> js_number" where
  "math_max NaN _ = NaN"
| "math_max _ NaN = NaN"
| "math_max PosInf _ = PosInf"
| "math_max _ PosInf = PosInf"
| "math_max NegInf b = b"
| "math_max a NegInf = a"
| "math_max (Fin a) (Fin b) = Fin (max a b)"

fun js_add :: "js_number \<Rightarrow> js_number \<Rightarrow> js_number" where
  "js_add NaN _ = NaN"
| "js_add _ NaN = NaN"
| "js_add PosInf NegInf = NaN"
| "js_add NegInf PosInf = NaN"
| "js_add PosInf _ = PosInf"
| "js_add _ PosInf = PosInf"
| "js_add NegInf _ = NegInf"
| "js_add _ NegInf = NegInf"
| "js_add (Fin a) (Fin b) = Fin (a + b)"

fun js_neg :: "js_number \<Rightarrow> js_number" where
  "js_neg (Fin a) = Fin (- a)"
| "js_neg NaN = NaN"
| "js_neg PosInf = NegInf"
| "js_neg NegInf = PosInf"

definition js_sub :: "js_number \<Rightarrow> js_number \<Rightarrow> js_number" where
  "js_sub a b = js_add a (js_neg b)"

text \<open>
  \<open>Array.prototype.slice(start, end)\<close>: each bound goes through \<open>ToIntegerOrInfinity\<close>
  (\<open>NaN\<close> becomes 0, finite values are truncated toward zero), a negative bound counts
  from the end, and both are clamped to \<open>[0, length]\<close>. An \<open>undefined\<close> end is the length.
\<close>

definition truncate_rat :: "rat \<Rightarrow> int" where
  "truncate_rat q = (if q < 0 then - \<lfloor>- q\<rfloor> else \<lfloor>q\<rfloor>)"

fun rel_index :: "nat \<Rightarrow> js_number \<Rightarrow> nat" where
  "rel_index len NaN = 0"
| "rel_index len NegInf = 0"
| "rel_index len PosInf = len"
| "rel_index len (Fin q) =
     (let i = truncate_rat q
      in if i < 0 then nat (max (int len + i) 0) else min (nat i) len)"

definition js_slice :: "'a list \<Rightarrow> js_number \<Rightarrow> js_number option \<Rightarrow> 'a list" where
  "js_slice xs start end_opt =
     (let len = length xs;
          k = rel_index len start;
          final = (case end_opt of None \<Rightarrow> len | Some e \<Rightarrow> rel_index len e)
      in take (final - k) (drop k xs))"

subsection \<open>String helpers\<close>

text \<open>
  \<open>String.prototype.trim\<close> and \<open>trimEnd\<close> strip ECMAScript white space and line
  terminators.
\<close>

definition is_js_space :: "code_unit \<Rightarrow> bool" where
  "is_js_space c \<longleftrightarrow>
     c \<in> {0x9, 0xA, 0xB, 0xC, 0xD, 0x20, 0xA0, 0x1680, 0x2028, 0x2029, 0x202F, 0x205F,
          0x3000, 0xFEFF}
     \<or> (0x2000 \<le> c \<and> c \<le> 0x200A)"

definition trimStart :: "jstring \<Rightarrow> jstring" where
  "trimStart s = dropWhile is_js_space s"

definition trimEnd :: "jstring \<Rightarrow> jstring" where
  "trimEnd s = rev (dropWhile is_js_space (rev s))"

definition trim :: "jstring \<Rightarrow> jstring" where
  "trim s = trimEnd (trimStart s)"

subsection \<open>Numbers in template literals\<close>

text \<open>
  A number inside a template literal is converted by \<open>Number::toString\<close> of ECMAScript
  (radix 10): \<open>NaN\<close>, \<open>Infinity\<close>, \<open>0\<close>, and otherwise the shortest run of decimal digits
  that reads back as the same double, laid out as plain digits, as a decimal fraction or
  in exponent form. The conversion works on the double itself, so the first step is the
  double a rational stands for: 53 significant bits, round to nearest, ties to even,
  exponents down to \<open>-1074\<close>, overflow to infinity from \<open>2^1024\<close> on. On a rational that is
  a double this step changes nothing; a rational that is not a double is printed as the
  double nearest to it, the number the engine would hold for it.
\<close>

function show_digits :: "int \<Rightarrow> jstring" where
  "show_digits i =
     (if i < 10 then [of_int (48 + i)] else show_digits (i div 10) @ [of_int (48 + i mod 10)])"
  by pat_completeness auto
termination
  by (relation "measure nat") auto

text \<open>The number of binary and of decimal digits of a positive integer.\<close>

function bit_length :: "int \<Rightarrow> int" where
  "bit_length i = (if i \<le> 0 then 0 else 1 + bit_length (i div 2))"
  by pat_completeness auto
termination
  by (relation "measure nat") auto

function dec_length :: "int \<Rightarrow> int" where
  "dec_length i = (if i \<le> 0 then 0 else 1 + dec_length (i div 10))"
  by pat_completeness auto
termination
  by (relation "measure nat") auto

declare show_digits.simps [simp del] bit_length.simps [simp del] dec_length.simps [simp del]

text \<open>
  For a positive rational \<open>q\<close>: the integers \<open>e\<close> with \<open>2^e \<le> q < 2^(e+1)\<close> and with
  \<open>10^e \<le> q < 10^(e+1)\<close>.
\<close>

definition floor_log2 :: "rat \<Rightarrow> int" where
  "floor_log2 q =
     (if 1 \<le> q then bit_length \<lfloor>q\<rfloor> - 1
      else - bit_length (\<lceil>1 / q\<rceil> - 1))"

definition floor_log10 :: "rat \<Rightarrow> int" where
  "floor_log10 q =
     (if 1 \<le> q then dec_length \<lfloor>q\<rfloor> - 1
      else - dec_length (\<lceil>1 / q\<rceil> - 1))"

definition ipow :: "rat \<Rightarrow> int \<Rightarrow> rat" where
  "ipow b e = (if 0 \<le> e then b ^ nat e else 1 / b ^ nat (- e))"

definition round_half_even :: "rat \<Rightarrow> int" where
  "round_half_even q =
     (let f = \<lfloor>q\<rfloor>; r = q - of_int f
      in if r < 1 / 2 then f else if 1 / 2 < r then f + 1 else if even f then f else f + 1)"

text \<open>The double nearest to a positive rational; \<open>None\<close> is the overflow to infinity.\<close>

definition to_double :: "rat \<Rightarrow> rat option" where
  "to_double q =
     (let e = max (floor_log2 q - 52) (- 1074);
          v = of_int (round_half_even (q / ipow 2 e)) * ipow 2 e
      in if 2 ^ 1024 \<le> v then None else Some v)"

text \<open>
  The digits \<open>s\<close> and the exponent \<open>n\<close> of \<open>Number::toString\<close> for a positive double \<open>v\<close>, with
  \<open>k\<close> digits: \<open>s * 10^(n - k)\<close> reads back as \<open>v\<close>. Of the \<open>k\<close>-digit decimals next below and
  next above \<open>v\<close> the one that reads back as \<open>v\<close> is taken, the closer one if both do, the
  even one if they are equally close. The smallest \<open>k\<close> that has such a decimal is used;
  seventeen digits always read back, so from there the nearest decimal is taken.
\<close>

definition candidate :: "rat \<Rightarrow> int \<Rightarrow> int \<Rightarrow> (int \<times> int) option" where
  "candidate v n k =
     (let u = ipow 10 (n - k);
          lo = \<lfloor>v / u\<rfloor>;
          hi = \<lceil>v / u\<rceil>;
          ok_lo = (to_double (of_int lo * u) = Some v);
          ok_hi = (to_double (of_int hi * u) = Some v);
          d_lo = v - of_int lo * u;
          d_hi = of_int hi * u - v
      in if ok_hi \<and> (\<not> ok_lo \<or> d_hi < d_lo \<or> (d_hi = d_lo \<and> even hi))
         then Some (if of_int hi = ipow 10 k then (1, n + 1) else (hi, n))
         else if ok_lo then Some (lo, n) else None)"

fun first_some :: "('a \<Rightarrow> 'b option) \<Rightarrow> 'a list \<Rightarrow> 'b option" where
  "first_some f [] = None"
| "first_some f (x # xs) = (case f x of Some y \<Rightarrow> Some y | None \<Rightarrow> first_some f xs)"

definition shortest_digits :: "rat \<Rightarrow> int \<times> int" where
  "shortest_digits v =
     (let n = floor_log10 v + 1
      in case first_some (candidate v n) [1, 2, 3, 4, 5, 6, 7, 8, 9, 10, 11, 12, 13, 14, 15, 16]
         of Some c \<Rightarrow> c
          | None \<Rightarrow> (round_half_even (v / ipow 10 (n - 17)), n))"

text \<open>
  The layout: with \<open>k\<close> digits and exponent \<open>n\<close>, plain digits padded with zeros when
  \<open>k \<le> n \<le> 21\<close>, a decimal point inside the digits when \<open>0 < n \<le> 21\<close>, \<open>0.\<close> and zeros
  before the digits when \<open>-6 < n \<le> 0\<close>, and otherwise exponent form.
\<close>

definition pos_number_text :: "rat \<Rightarrow> jstring" where
  "pos_number_text v =
     (case shortest_digits v of
        (s, n) \<Rightarrow>
          let ds = show_digits s;
              k = int (length ds)
          in if k \<le> n \<and> n \<le> 21 then ds @ replicate (nat (n - k)) 0x30
             else if 0 < n \<and> n \<le> 21 then take (nat n) ds @ js ''.'' @ drop (nat n) ds
             else if - 6 < n \<and> n \<le> 0 then js ''0.'' @ replicate (nat (- n)) 0x30 @ ds
             else
               let e = n - 1;
                   ex = (if e < 0 then js ''-'' else js ''+'') @ show_digits \<bar>e\<bar>
               in if k = 1 then ds @ js ''e'' @ ex
                  else take 1 ds @ js ''.'' @ drop 1 ds @ js ''e'' @ ex)"

fun number_text :: "js_number \<Rightarrow> jstring" where
  "number_text NaN = js ''NaN''"
| "number_text PosInf = js ''Infinity''"
| "number_text NegInf = js ''-Infinity''"
| "number_text (Fin q) =
     (if q = 0 then js ''0''
      else
        (case to_double \<bar>q\<bar> of
           None \<Rightarrow> (if q < 0 then js ''-Infinity'' else js ''Infinity'')
         | Some v \<Rightarrow>
             if v = 0 then js ''0''
             else (if q < 0 then js ''-'' else []) @ pos_number_text v))"

declare number_text.simps [simp del]

text \<open>An integer-valued number in a template literal: an exit code, a signal number, a pid.\<close>

definition show_int :: "int \<Rightarrow> jstring" where
  "show_int i = number_text (Fin (of_int i))"

subsection \<open>Lines\<close>

text \<open>\<open>text.replace(/\r\n/g, "\n")\<close>: left to right, non-overlapping.\<close>

fun replace_crlf :: "jstring \<Rightarrow> jstring" where
  "replace_crlf [] = []"
| "replace_crlf [c] = [c]"
| "replace_crlf (c # d # cs) =
     (if c = CR \<and> d = LF then LF # replace_crlf cs else c # replace_crlf (d # cs))"

text \<open>\<open>s.split("\n")\<close>: never empty; the empty string gives one empty segment.\<close>

fun split_lf :: "jstring \<Rightarrow> jstring list" where
  "split_lf [] = [[]]"
| "split_lf (c # cs) =
     (if c = LF then [] # split_lf cs
      else (case split_lf cs of [] \<Rightarrow> [[c]] | l # ls \<Rightarrow> (c # l) # ls))"

text \<open>\<open>lines.join("\n")\<close>.\<close>

fun join_lf :: "jstring list \<Rightarrow> jstring" where
  "join_lf [] = []"
| "join_lf [l] = l"
| "join_lf (l # m # ls) = l @ LF # join_lf (m # ls)"

section \<open>\<open>sliceLogLines\<close>\<close>

record log_slice =
  slice_str :: jstring
  totalLines :: nat
  totalChars :: nat

text \<open>
  \<open>if (lines.length > 0 && lines[lines.length - 1] === "") lines.pop()\<close>
\<close>

definition pop_trailing_empty :: "jstring list \<Rightarrow> jstring list" where
  "pop_trailing_empty ls = (if ls \<noteq> [] \<and> last ls = [] then butlast ls else ls)"

definition log_lines :: "jstring \<Rightarrow> jstring list" where
  "log_lines text = pop_trailing_empty (split_lf (replace_crlf text))"

definition log_start :: "nat \<Rightarrow> js_number option \<Rightarrow> js_number option \<Rightarrow> js_number" where
  "log_start nlines offset limit =
     (let start = (case offset of
                     Some n \<Rightarrow> if isFinite n then math_max (Fin 0) (math_floor n) else Fin 0
                   | None \<Rightarrow> Fin 0)
      in case (limit, offset) of
           (Some l, None) \<Rightarrow>
             (let tailCount = math_max (Fin 0) (math_floor l)
              in math_max (js_sub (Fin (of_nat nlines)) tailCount) (Fin 0))
         | _ \<Rightarrow> start)"

definition log_end :: "js_number \<Rightarrow> js_number option \<Rightarrow> js_number option" where
  "log_end start limit =
     (case limit of
        Some l \<Rightarrow> if isFinite l then Some (js_add start (math_max (Fin 0) (math_floor l)))
                  else None
      | None \<Rightarrow> None)"

definition sliceLogLines :: "jstring \<Rightarrow> js_number option \<Rightarrow> js_number option \<Rightarrow> log_slice" where
  "sliceLogLines text offset limit =
     (if text = [] then \<lparr>slice_str = [], totalLines = 0, totalChars = 0\<rparr>
      else
        let lines = log_lines text;
            start = log_start (length lines) offset limit;
            end_opt = log_end start limit
        in \<lparr>slice_str = join_lf (js_slice lines start end_opt),
            totalLines = length lines,
            totalChars = length text\<rparr>)"

section \<open>Sessions and the registry\<close>

datatype status = Running | Completed | Failed

datatype stdin_mode = Pipe | Pty

datatype stream = Stdout | Stderr

text \<open>
  \<open>NodeJS.Signals | number\<close>: a signal name (child process) or a signal number (node-pty).
  \<open>null\<close> and \<open>undefined\<close> are both \<open>None\<close> of the option type: the source only
  tests them with \<open>??\<close>, \<open>!= null\<close> and \<open>== null\<close>, which do not tell them apart.
\<close>

datatype exit_signal = SigName jstring | SigNum int

fun truthy_signal :: "exit_signal \<Rightarrow> bool" where
  "truthy_signal (SigName n) = (n \<noteq> [])"
| "truthy_signal (SigNum k) = (k \<noteq> 0)"

fun show_signal :: "exit_signal \<Rightarrow> jstring" where
  "show_signal (SigName n) = n"
| "show_signal (SigNum k) = show_int k"

text \<open>
  The fields shared by a live session object and a finished-session entry, then the two
  records. \<open>child\<close> is the child-process handle (with its pid, which is undefined when
  the spawn failed), \<open>pty\<close> the pseudo-terminal handle (with its pid).
\<close>

record proc_info =
  sid :: jstring
  command :: jstring
  startedAt :: int
  cwd :: jstring
  aggregated :: jstring
  tail :: jstring
  truncated :: bool
  exitCode :: "int option"
  exitSignal :: "exit_signal option"

record session = proc_info +
  child :: "nat option option"
  pty :: "nat option"
  pid :: "nat option"
  stdinMode :: stdin_mode
  maxOutputChars :: nat
  totalOutputChars :: nat
  pendingStdout :: "jstring list"
  pendingStderr :: "jstring list"
  exited :: bool
  backgrounded :: bool

record finished_session = proc_info +
  endedAt :: int
  status :: status

text \<open>What the process-tree killer and the PTY handle were asked to do, in order.\<close>

datatype effect = KillProcessTree nat | PtyKill

text \<open>
  Session objects are shared between the executor's closure and the registry, so they
  live in a store keyed by their id; \<open>running\<close> is the key set of the registry's live map
  and \<open>finished\<close> its map of finished entries. \<open>tailLimit\<close> is the registry's bound on
  \<open>tail\<close>.
\<close>

record world =
  heap :: "jstring \<rightharpoonup> session"
  running :: "jstring set"
  finished :: "jstring \<rightharpoonup> finished_session"
  effects :: "effect list"
  tailLimit :: nat

subsection \<open>Registry operations (\<open>bash-process-registry.js\<close>)\<close>

text \<open>
  Modelled from the spec: \<open>getSession\<close> of \<open>bash-process-registry.js\<close>, which is not among
  the sources: lookup by id in the live set, undefined if absent.
\<close>

definition getSession :: "world \<Rightarrow> jstring \<Rightarrow> session option" where
  "getSession w i = (if i \<in> running w then heap w i else None)"

text \<open>
  Modelled from the spec: \<open>getFinishedSession\<close> of \<open>bash-process-registry.js\<close>: lookup by id
  in the finished set, undefined if absent.
\<close>

definition getFinishedSession :: "world \<Rightarrow> jstring \<Rightarrow> finished_session option" where
  "getFinishedSession w i = finished w i"

text \<open>
  Modelled from the spec: \<open>addSession\<close> of \<open>bash-process-registry.js\<close>: inserts into the
  live set.
\<close>

definition addSession :: "session \<Rightarrow> world \<Rightarrow> world" where
  "addSession s w = w\<lparr>heap := (heap w)(sid s \<mapsto> s), running := insert (sid s) (running w)\<rparr>"

text \<open>
  Modelled from the spec: \<open>deleteSession\<close> of \<open>bash-process-registry.js\<close>: removes the id
  from either set.
\<close>

definition deleteSession :: "jstring \<Rightarrow> world \<Rightarrow> world" where
  "deleteSession i w = w\<lparr>running := running w - {i}, finished := (finished w)(i := None)\<rparr>"

text \<open>
  Modelled from the spec: \<open>markBackgrounded\<close> of \<open>bash-process-registry.js\<close>: idempotent
  true-transition of \<open>backgrounded\<close>.
\<close>

definition markBackgrounded :: "jstring \<Rightarrow> world \<Rightarrow> world" where
  "markBackgrounded i w =
     (case heap w i of
        None \<Rightarrow> w
      | Some s \<Rightarrow> w\<lparr>heap := (heap w)(i \<mapsto> s\<lparr>backgrounded := True\<rparr>)\<rparr>)"

text \<open>
  Modelled from the spec: \<open>drainSession\<close> of \<open>bash-process-registry.js\<close>: swaps the
  pending stdout/stderr buffers with empty ones and returns the drained pair.
\<close>

definition drainSession :: "jstring \<Rightarrow> world \<Rightarrow> (jstring \<times> jstring) \<times> world" where
  "drainSession i w =
     (case heap w i of
        None \<Rightarrow> (([], []), w)
      | Some s \<Rightarrow>
          ((concat (pendingStdout s), concat (pendingStderr s)),
           w\<lparr>heap := (heap w)(i \<mapsto> s\<lparr>pendingStdout := [], pendingStderr := []\<rparr>)\<rparr>))"

text \<open>
  Modelled from the spec: the entry that \<open>bash-process-registry.js\<close> keeps for a finished
  session, with the fields the controller reads from it: the session's record at the
  time of exit, \<open>endedAt\<close> and the status.
\<close>

definition finished_entry :: "session \<Rightarrow> int \<Rightarrow> status \<Rightarrow> finished_session" where
  "finished_entry s now st =
     \<lparr>sid = sid s, command = command s, startedAt = startedAt s, cwd = cwd s,
      aggregated = aggregated s, tail = tail s, truncated = truncated s,
      exitCode = exitCode s, exitSignal = exitSignal s, endedAt = now, status = st\<rparr>"

text \<open>
  Modelled from the spec: \<open>markExited\<close> of \<open>bash-process-registry.js\<close>: the first call
  sets \<open>endedAt = now\<close> and moves the session from live to finished; subsequent calls
  update the status fields but do not re-move.
\<close>

definition markExited ::
  "jstring \<Rightarrow> int option \<Rightarrow> exit_signal option \<Rightarrow> status \<Rightarrow> int \<Rightarrow> world \<Rightarrow> world" where
  "markExited i code sig st now w =
     (case heap w i of
        None \<Rightarrow> w
      | Some s \<Rightarrow>
          let s' = s\<lparr>exitCode := code, exitSignal := sig, exited := True\<rparr>;
              w' = w\<lparr>heap := (heap w)(i \<mapsto> s')\<rparr>
          in if \<not> exited s
             then w'\<lparr>running := running w - {i},
                     finished := (finished w)(i \<mapsto> finished_entry s' now st)\<rparr>
             else (case finished w i of
                     None \<Rightarrow> w'
                   | Some f \<Rightarrow>
                       w'\<lparr>finished := (finished w)(i \<mapsto>
                             f\<lparr>exitCode := code, exitSignal := sig, status := st\<rparr>)\<rparr>))"

text \<open>
  Modelled from the spec: \<open>appendOutput\<close> of \<open>bash-process-registry.js\<close>: nothing is
  appended after exit; otherwise the chunk is appended to \<open>aggregated\<close> up to the
  remaining cap (the remainder is dropped and \<open>truncated\<close> set), \<open>tail\<close> is the bounded
  suffix of \<open>aggregated\<close>, the chunk is enqueued on the pending buffer of its stream, and
  \<open>totalOutputChars\<close> counts every character that arrived.
\<close>

definition appendOutput :: "jstring \<Rightarrow> stream \<Rightarrow> jstring \<Rightarrow> world \<Rightarrow> world" where
  "appendOutput i st chunk w =
     (case heap w i of
        None \<Rightarrow> w
      | Some s \<Rightarrow>
          if exited s then w
          else
            let room = maxOutputChars s - length (aggregated s);
                agg = aggregated s @ take room chunk;
                s1 = s\<lparr>aggregated := agg,
                       tail := drop (length agg - tailLimit w) agg,
                       truncated := (truncated s \<or> room < length chunk),
                       totalOutputChars := totalOutputChars s + length chunk\<rparr>;
                s2 = (case st of
                        Stdout \<Rightarrow> s1\<lparr>pendingStdout := pendingStdout s1 @ [chunk]\<rparr>
                      | Stderr \<Rightarrow> s1\<lparr>pendingStderr := pendingStderr s1 @ [chunk]\<rparr>)
            in w\<lparr>heap := (heap w)(i \<mapsto> s2)\<rparr>)"

subsection \<open>\<open>killSession\<close>\<close>

text \<open>
  \<open>session.pid ?? session.child?.pid ?? session.pty?.pid\<close>, then \<open>if (pid)\<close>: a pid of
  0 is falsy. \<open>killProcessTree\<close> and \<open>pty.kill\<close> act on the operating system; the model
  records the requests.
\<close>

definition kill_pid :: "session \<Rightarrow> nat option" where
  "kill_pid s =
     (case pid s of
        Some p \<Rightarrow> Some p
      | None \<Rightarrow>
          (case child s of
             Some (Some p) \<Rightarrow> Some p
           | _ \<Rightarrow> pty s))"

definition killSession :: "session \<Rightarrow> world \<Rightarrow> world" where
  "killSession s w =
     (let e1 = (case kill_pid s of
                  Some p \<Rightarrow> if p \<noteq> 0 then [KillProcessTree p] else []
                | None \<Rightarrow> []);
          e2 = (if stdinMode s = Pty \<and> pty s \<noteq> None then [PtyKill] else [])
      in w\<lparr>effects := effects w @ e1 @ e2\<rparr>)"

section \<open>The controller: \<open>createProcessTool\<close>\<close>

text \<open>
  The actions \<open>poll\<close>, \<open>log\<close>, \<open>kill\<close>, \<open>clear\<close> and \<open>remove\<close> of the \<open>process\<close> tool, and
  the fall-through for an action string outside the schema. The actions \<open>list\<close> and
  \<open>write\<close>, and the derived \<open>name\<close> in the details, are not part of this development.
\<close>

datatype action = Poll | Log | Kill | Clear | Remove | Unknown jstring

record process_params =
  action :: action
  sessionId :: "jstring option"
  offset :: "js_number option"
  limit :: "js_number option"

text \<open>The tool result: the text of its single content item, and the details.\<close>

record tool_result =
  r_text :: jstring
  r_status :: status
  r_sessionId :: "jstring option"
  r_exitCode :: "int option"
  r_exitSignal :: "exit_signal option"
  r_aggregated :: "jstring option"
  r_totalLines :: "nat option"
  r_totalChars :: "nat option"
  r_truncated :: "bool option"

definition plain_result :: "jstring \<Rightarrow> status \<Rightarrow> tool_result" where
  "plain_result t st =
     \<lparr>r_text = t, r_status = st, r_sessionId = None, r_exitCode = None, r_exitSignal = None,
      r_aggregated = None, r_totalLines = None, r_totalChars = None, r_truncated = None\<rparr>"

text \<open>
  \<open>exitSignal ? `signal ${exitSignal}` : `code ${exitCode}`\<close>
\<close>

definition exit_phrase :: "exit_signal option \<Rightarrow> int \<Rightarrow> jstring" where
  "exit_phrase sig code =
     (case sig of
        Some g \<Rightarrow> if truthy_signal g then js ''signal '' @ show_signal g
                  else js ''code '' @ show_int code
      | None \<Rightarrow> js ''code '' @ show_int code)"

text \<open>
  The literal between \<open>recorded\<close> and \<open>truncated to cap\<close> is the three code units the source
  file holds there.
\<close>

definition poll_finished :: "jstring \<Rightarrow> finished_session \<Rightarrow> tool_result" where
  "poll_finished i f =
     (plain_result
        ((if tail f \<noteq> [] then tail f
          else js ''(no output recorded''
               @ (if truncated f then js '' '' @ [0xE2, 0x20AC, 0x201D] @ js '' truncated to cap''
                  else [])
               @ js '')'')
         @ [LF, LF] @ js ''Process exited with ''
         @ exit_phrase (exitSignal f) (case exitCode f of Some c \<Rightarrow> c | None \<Rightarrow> 0)
         @ js ''.'')
        (if status f = Completed then Completed else Failed))
     \<lparr>r_sessionId := Some i, r_exitCode := exitCode f, r_aggregated := Some (aggregated f)\<rparr>"

definition poll_live :: "world \<Rightarrow> int \<Rightarrow> jstring \<Rightarrow> session \<Rightarrow> tool_result \<times> world" where
  "poll_live w now i s =
     (let ((out, err), w1) = drainSession i w;
          code = (case exitCode s of Some c \<Rightarrow> c | None \<Rightarrow> 0);
          sig = exitSignal s;
          st = (if code = 0 \<and> sig = None then Completed else Failed);
          w2 = (if exited s then markExited i (exitCode s) (exitSignal s) st now w1 else w1);
          output = trim (join_lf (filter (\<lambda>t. t \<noteq> []) [trimEnd out, trimEnd err]))
      in ((plain_result
             ((if output \<noteq> [] then output else js ''(no new output)'')
              @ (if exited s
                 then [LF, LF] @ js ''Process exited with '' @ exit_phrase sig code @ js ''.''
                 else [LF, LF] @ js ''Process still running.''))
             (if exited s then st else Running))
          \<lparr>r_sessionId := Some i,
           r_exitCode := (if exited s then Some code else None),
           r_aggregated := Some (aggregated s)\<rparr>,
          w2))"

definition not_backgrounded :: "jstring \<Rightarrow> tool_result" where
  "not_backgrounded i = plain_result (js ''Session '' @ i @ js '' is not backgrounded.'') Failed"

definition poll_action :: "world \<Rightarrow> int \<Rightarrow> jstring \<Rightarrow> tool_result \<times> world" where
  "poll_action w now i =
     (case getSession w i of
        None \<Rightarrow>
          (case getFinishedSession w i of
             Some f \<Rightarrow> (poll_finished i f, w)
           | None \<Rightarrow> (plain_result (js ''No session found for '' @ i) Failed, w))
      | Some s \<Rightarrow>
          if \<not> backgrounded s then (not_backgrounded i, w)
          else poll_live w now i s)"

definition log_action ::
  "world \<Rightarrow> jstring \<Rightarrow> js_number option \<Rightarrow> js_number option \<Rightarrow> tool_result \<times> world" where
  "log_action w i ofs lm =
     (case getSession w i of
        Some s \<Rightarrow>
          if \<not> backgrounded s then (not_backgrounded i, w)
          else
            let r = sliceLogLines (aggregated s) ofs lm
            in ((plain_result
                   (if slice_str r \<noteq> [] then slice_str r else js ''(no output yet)'')
                   (if exited s then Completed else Running))
                \<lparr>r_sessionId := Some i, r_totalLines := Some (totalLines r),
                 r_totalChars := Some (totalChars r), r_truncated := Some (truncated s)\<rparr>,
                w)
      | None \<Rightarrow>
          (case getFinishedSession w i of
             Some f \<Rightarrow>
               let r = sliceLogLines (aggregated f) ofs lm
               in ((plain_result
                      (if slice_str r \<noteq> [] then slice_str r else js ''(no output recorded)'')
                      (if status f = Completed then Completed else Failed))
                   \<lparr>r_sessionId := Some i, r_totalLines := Some (totalLines r),
                    r_totalChars := Some (totalChars r), r_truncated := Some (truncated f),
                    r_exitCode := exitCode f, r_exitSignal := exitSignal f\<rparr>,
                   w)
           | None \<Rightarrow> (plain_result (js ''No session found for '' @ i) Failed, w)))"

definition SIGKILL :: exit_signal where
  "SIGKILL = SigName (js ''SIGKILL'')"

definition kill_action :: "world \<Rightarrow> int \<Rightarrow> jstring \<Rightarrow> tool_result \<times> world" where
  "kill_action w now i =
     (case getSession w i of
        None \<Rightarrow> (plain_result (js ''No active session found for '' @ i) Failed, w)
      | Some s \<Rightarrow>
          if \<not> backgrounded s then (not_backgrounded i, w)
          else (plain_result (js ''Killed session '' @ i @ js ''.'') Failed,
                markExited i None (Some SIGKILL) Failed now (killSession s w)))"

definition clear_action :: "world \<Rightarrow> jstring \<Rightarrow> tool_result \<times> world" where
  "clear_action w i =
     (case getFinishedSession w i of
        Some f \<Rightarrow> (plain_result (js ''Cleared session '' @ i @ js ''.'') Completed,
                   deleteSession i w)
      | None \<Rightarrow> (plain_result (js ''No finished session found for '' @ i) Failed, w))"

definition remove_action :: "world \<Rightarrow> int \<Rightarrow> jstring \<Rightarrow> tool_result \<times> world" where
  "remove_action w now i =
     (case getSession w i of
        Some s \<Rightarrow> (plain_result (js ''Removed session '' @ i @ js ''.'') Failed,
                   markExited i None (Some SIGKILL) Failed now (killSession s w))
      | None \<Rightarrow>
          (case getFinishedSession w i of
             Some f \<Rightarrow> (plain_result (js ''Removed session '' @ i @ js ''.'') Completed,
                        deleteSession i w)
           | None \<Rightarrow> (plain_result (js ''No session found for '' @ i) Failed, w)))"

text \<open>
  \<open>execute\<close> of the \<open>process\<close> tool; \<open>now\<close> is the reading of \<open>Date.now()\<close>.
  \<open>!params.sessionId\<close> holds for a missing id and for the empty string.
\<close>

definition process_execute :: "world \<Rightarrow> int \<Rightarrow> process_params \<Rightarrow> tool_result \<times> world" where
  "process_execute w now p =
     (case sessionId p of
        None \<Rightarrow> (plain_result (js ''sessionId is required for this action.'') Failed, w)
      | Some i \<Rightarrow>
          if i = [] then (plain_result (js ''sessionId is required for this action.'') Failed, w)
          else
            (case action p of
               Poll \<Rightarrow> poll_action w now i
             | Log \<Rightarrow> log_action w i (offset p) (limit p)
             | Kill \<Rightarrow> kill_action w now i
             | Clear \<Rightarrow> clear_action w i
             | Remove \<Rightarrow> remove_action w now i
             | Unknown a \<Rightarrow> (plain_result (js ''Unknown action '' @ a) Failed, w)))"

section \<open>The executor: \<open>createBashTool\<close>\<close>

text \<open>\<open>Math.min(a, b)\<close>: \<open>NaN\<close> if either argument is \<open>NaN\<close>.\<close>

fun math_min :: "js_number \<Rightarrow> js_number \<Rightarrow> js_number" where
  "math_min NaN _ = NaN"
| "math_min _ NaN = NaN"
| "math_min NegInf _ = NegInf"
| "math_min _ NegInf = NegInf"
| "math_min PosInf b = b"
| "math_min a PosInf = a"
| "math_min (Fin a) (Fin b) = Fin (min a b)"

text \<open>\<open>n > 0\<close>: false for \<open>NaN\<close>.\<close>

fun gt_zero :: "js_number \<Rightarrow> bool" where
  "gt_zero (Fin q) = (0 < q)"
| "gt_zero PosInf = True"
| "gt_zero _ = False"

definition clampNumber ::
  "js_number option \<Rightarrow> js_number \<Rightarrow> js_number \<Rightarrow> js_number \<Rightarrow> js_number" where
  "clampNumber v defaultValue mn mx =
     (case v of
        None \<Rightarrow> defaultValue
      | Some NaN \<Rightarrow> defaultValue
      | Some n \<Rightarrow> math_min (math_max n mn) mx)"

definition CHUNK_LIMIT :: nat where
  "CHUNK_LIMIT = 8 * 1024"

text \<open>
  \<open>chunkString(input)\<close> with the default limit: the loop
  \<open>for (i = 0; i < input.length; i += limit) chunks.push(input.slice(i, i + limit))\<close>.
\<close>

function chunkString :: "jstring \<Rightarrow> jstring list" where
  "chunkString input =
     (if input = [] then [] else take CHUNK_LIMIT input # chunkString (drop CHUNK_LIMIT input))"
  by pat_completeness auto
termination
  by (relation "measure length") (auto simp: CHUNK_LIMIT_def)

declare chunkString.simps [simp del]

text \<open>
  A value that was thrown or passed to an error listener (\<open>unknown\<close> in the source), as
  far as \<open>formatPtyError\<close> tells values apart: a falsy value, a string, an \<open>Error\<close> with
  its message, or anything else, given by what \<open>JSON.stringify\<close> makes of it (\<open>None\<close>
  when that throws).
\<close>

datatype js_value = Falsy | StringVal jstring | ErrorObj jstring | OtherVal "jstring option"

text \<open>\<open>message.split(/\r?\n/)[0]\<close>: the text before the first LF or CR LF.\<close>

fun first_line :: "jstring \<Rightarrow> jstring" where
  "first_line [] = []"
| "first_line [c] = (if c = LF then [] else [c])"
| "first_line (c # d # cs) =
     (if c = LF \<or> (c = CR \<and> d = LF) then [] else c # first_line (d # cs))"

definition formatPtyError :: "js_value \<Rightarrow> jstring" where
  "formatPtyError e =
     (case e of
        Falsy \<Rightarrow> []
      | StringVal s \<Rightarrow> if s = [] then [] else js '' ('' @ s @ js '')''
      | ErrorObj m \<Rightarrow>
          (let firstLine = trim (first_line m)
           in if firstLine \<noteq> [] then js '' ('' @ firstLine @ js '')'' else [])
      | OtherVal (Some j) \<Rightarrow> js '' ('' @ j @ js '')''
      | OtherVal None \<Rightarrow> [])"

text \<open>
  The parameters of the \<open>bash\<close> tool. \<open>env\<close> only reaches the spawned process and is left
  out.
\<close>

record bash_params =
  p_command :: jstring
  p_workdir :: "jstring option"
  p_yieldMs :: "js_number option"
  p_background :: "bool option"
  p_timeout :: "js_number option"
  p_stdinMode :: "stdin_mode option"

record bash_defaults =
  backgroundMs :: "js_number option"
  timeoutSec :: "js_number option"

text \<open>What loading node-pty and spawning through it gives.\<close>

datatype pty_backend = LoadFails js_value | SpawnFails js_value | PtySpawned nat

text \<open>
  What the call reads from its surroundings: \<open>PI_BASH_YIELD_MS\<close> as \<open>readEnvInt\<close> returns
  it, \<open>process.cwd()\<close>, the fresh \<open>randomUUID()\<close>, \<open>Date.now()\<close>, the PTY backend, the pid of
  the child that \<open>spawn\<close> returns (undefined when the spawn fails), the cancellation
  signal (\<open>None\<close> when the caller passes none, otherwise whether it is already aborted),
  whether a progress callback was passed, and the output cap \<open>DEFAULT_MAX_OUTPUT\<close>.
\<close>

record host =
  env_yield_ms :: "js_number option"
  process_cwd :: jstring
  uuid :: jstring
  date_now :: int
  pty_backend :: pty_backend
  spawn_pid :: "nat option"
  signal :: "bool option"
  has_onUpdate :: bool
  max_output :: nat

text \<open>How the promise of a call was settled.\<close>

datatype bash_details =
    RunningDetails jstring "nat option" int jstring
  | CompletedDetails int int jstring

datatype settlement = Resolved jstring bash_details | Rejected js_value

text \<open>
  The variables of one \<open>execute\<close> call that its handlers close over. A timer or a one-shot
  listener is \<open>True\<close> while it is pending. \<open>settlements\<close> lists the calls of \<open>resolve\<close> and
  \<open>reject\<close> that \<open>settle\<close> let through, \<open>updates\<close> the texts given to \<open>onUpdate\<close>.
\<close>

record exec =
  sessionId_x :: jstring
  startedAt_x :: int
  warning :: "jstring option"
  effectiveTimeout :: js_number
  has_child :: bool
  has_pty :: bool
  onUpdate_x :: bool
  aborted :: bool
  abort_listener :: bool
  exit_listener :: bool
  error_listener :: bool
  settled :: bool
  yielded :: bool
  timedOut :: bool
  yieldTimer :: bool
  timeoutTimer :: bool
  settlements :: "settlement list"
  updates :: "jstring list"

text \<open>\<open>settle(fn)\<close>\<close>

definition settle :: "settlement \<Rightarrow> exec \<Rightarrow> exec" where
  "settle r x = (if settled x then x else x\<lparr>settled := True, settlements := settlements x @ [r]\<rparr>)"

definition warning_prefix :: "exec \<Rightarrow> jstring" where
  "warning_prefix x = (case warning x of Some t \<Rightarrow> t @ [LF, LF] | None \<Rightarrow> [])"

definition onAbort :: "exec \<times> world \<Rightarrow> exec \<times> world" where
  "onAbort st =
     (case st of (x, w) \<Rightarrow>
        (case heap w (sessionId_x x) of
           None \<Rightarrow> (x, w)
         | Some s \<Rightarrow> (x, killSession s w)))"

definition emitUpdate :: "exec \<times> world \<Rightarrow> exec \<times> world" where
  "emitUpdate st =
     (case st of (x, w) \<Rightarrow>
        if \<not> onUpdate_x x then (x, w)
        else
          (case heap w (sessionId_x x) of
             None \<Rightarrow> (x, w)
           | Some s \<Rightarrow>
               (x\<lparr>updates := updates x
                     @ [warning_prefix x @ (if tail s \<noteq> [] then tail s else aggregated s)]\<rparr>,
                w)))"

text \<open>
  A data listener; \<open>str\<close> is the text that \<open>sanitizeBinaryOutput\<close>, which is not among the
  sources, returned for the data.
\<close>

definition on_data :: "stream \<Rightarrow> jstring \<Rightarrow> exec \<times> world \<Rightarrow> exec \<times> world" where
  "on_data strm str st =
     foldl (\<lambda>st' chunk.
              emitUpdate (fst st', appendOutput (sessionId_x (fst st')) strm chunk (snd st')))
       st (chunkString str)"

definition resolveRunning :: "exec \<times> world \<Rightarrow> exec \<times> world" where
  "resolveRunning st =
     (case st of (x, w) \<Rightarrow>
        (case heap w (sessionId_x x) of
           None \<Rightarrow> (x, w)
         | Some s \<Rightarrow>
             (settle
                (Resolved
                   (warning_prefix x
                    @ js ''Command still running (session '' @ sessionId_x x @ js '', pid ''
                    @ (case pid s of Some p \<Rightarrow> show_int (int p) | None \<Rightarrow> js ''n/a'')
                    @ js ''). ''
                    @ js ''Use process (list/poll/log/write/kill/clear/remove) for follow-up.'')
                   (RunningDetails (sessionId_x x) (pid s) (startedAt_x x) (tail s)))
                x,
              w)))"

text \<open>The body shared by \<open>onYieldNow\<close> and the yield timer's callback.\<close>

definition yield_now :: "exec \<times> world \<Rightarrow> exec \<times> world" where
  "yield_now st =
     (case st of (x, w) \<Rightarrow>
        if settled x then (x, w)
        else resolveRunning (x\<lparr>yielded := True\<rparr>, markBackgrounded (sessionId_x x) w))"

definition onYieldNow :: "exec \<times> world \<Rightarrow> exec \<times> world" where
  "onYieldNow st = (case st of (x, w) \<Rightarrow> yield_now (x\<lparr>yieldTimer := False\<rparr>, w))"

text \<open>
  \<open>isSuccess\<close> and \<open>status\<close> of \<open>handleExit\<close>: \<open>wasSignal\<close> is \<open>exitSignal != null\<close>.
\<close>

definition isSuccess :: "exec \<Rightarrow> int option \<Rightarrow> exit_signal option \<Rightarrow> bool" where
  "isSuccess x code sig \<longleftrightarrow> code = Some 0 \<and> \<not> (sig \<noteq> None) \<and> \<not> aborted x \<and> \<not> timedOut x"

definition exit_status :: "exec \<Rightarrow> int option \<Rightarrow> exit_signal option \<Rightarrow> status" where
  "exit_status x code sig = (if isSuccess x code sig then Completed else Failed)"

text \<open>
  The \<open>reason\<close> of \<open>handleExit\<close>. \<open>wasSignal && exitSignal\<close> also asks for a truthy signal: a
  signal number 0 or an empty name does not take the signal branch.
\<close>

definition failure_reason :: "exec \<Rightarrow> int option \<Rightarrow> exit_signal option \<Rightarrow> jstring" where
  "failure_reason x code sig =
     (if timedOut x
      then js ''Command timed out after '' @ number_text (effectiveTimeout x) @ js '' seconds''
      else
        (case sig of
           Some g \<Rightarrow>
             if truthy_signal g then js ''Command aborted by signal '' @ show_signal g
             else (case code of
                     None \<Rightarrow> js ''Command aborted before exit code was captured''
                   | Some c \<Rightarrow> js ''Command exited with code '' @ show_int c)
         | None \<Rightarrow>
             (case code of
                None \<Rightarrow> js ''Command aborted before exit code was captured''
              | Some c \<Rightarrow> js ''Command exited with code '' @ show_int c)))"

definition handleExit ::
  "int option \<Rightarrow> exit_signal option \<Rightarrow> int \<Rightarrow> exec \<times> world \<Rightarrow> exec \<times> world" where
  "handleExit code sig now st =
     (case st of (x0, w0) \<Rightarrow>
        let x = x0\<lparr>yieldTimer := False, timeoutTimer := False\<rparr>;
            durationMs = now - startedAt_x x;
            w = markExited (sessionId_x x) code sig (exit_status x code sig) now w0
        in case heap w (sessionId_x x) of
             None \<Rightarrow> (x, w)
           | Some s \<Rightarrow>
               if yielded x \<or> backgrounded s then (x, w)
               else
                 let agg = trim (aggregated s)
                 in if \<not> isSuccess x code sig
                    then
                      let reason = failure_reason x code sig;
                          message = (if agg \<noteq> [] then agg @ [LF, LF] @ reason else reason)
                      in (settle (Rejected (ErrorObj message)) x, w)
                    else
                      (settle
                         (Resolved
                            (warning_prefix x @ (if agg \<noteq> [] then agg else js ''(no output)''))
                            (CompletedDetails (case code of Some c \<Rightarrow> c | None \<Rightarrow> 0)
                               durationMs agg))
                         x,
                       w))"

text \<open>The listener of the child's \<open>error\<close> event.\<close>

definition on_child_error :: "js_value \<Rightarrow> int \<Rightarrow> exec \<times> world \<Rightarrow> exec \<times> world" where
  "on_child_error err now st =
     (case st of (x, w) \<Rightarrow>
        (settle (Rejected err) (x\<lparr>yieldTimer := False, timeoutTimer := False\<rparr>),
         markExited (sessionId_x x) None None Failed now w))"

text \<open>
  What can happen to a call after \<open>execute\<close> has returned its promise. The exit and error
  events carry the reading of \<open>Date.now()\<close>; node-pty reports the signal as a number.
\<close>

datatype event =
    YieldTimerFires
  | TimeoutTimerFires
  | AbortFires
  | ChildStdout jstring
  | ChildStderr jstring
  | PtyData jstring
  | ChildExit "int option" "exit_signal option" int
  | ChildError js_value int
  | PtyExit "int option" "int option" int

fun step :: "exec \<times> world \<Rightarrow> event \<Rightarrow> exec \<times> world" where
  "step (x, w) YieldTimerFires =
     (if yieldTimer x then yield_now (x\<lparr>yieldTimer := False\<rparr>, w) else (x, w))"
| "step (x, w) TimeoutTimerFires =
     (if timeoutTimer x then onAbort (x\<lparr>timeoutTimer := False, timedOut := True\<rparr>, w)
      else (x, w))"
| "step (x, w) AbortFires =
     (if abort_listener x then onAbort (x\<lparr>abort_listener := False, aborted := True\<rparr>, w)
      else (x, w))"
| "step (x, w) (ChildStdout str) = (if has_child x then on_data Stdout str (x, w) else (x, w))"
| "step (x, w) (ChildStderr str) = (if has_child x then on_data Stderr str (x, w) else (x, w))"
| "step (x, w) (PtyData str) = (if has_pty x then on_data Stdout str (x, w) else (x, w))"
| "step (x, w) (ChildExit code sig now) =
     (if has_child x \<and> exit_listener x
      then handleExit code sig now (x\<lparr>exit_listener := False\<rparr>, w) else (x, w))"
| "step (x, w) (ChildError err now) =
     (if has_child x \<and> error_listener x
      then on_child_error err now (x\<lparr>error_listener := False\<rparr>, w) else (x, w))"
| "step (x, w) (PtyExit code sig now) =
     (if has_pty x then handleExit code (map_option SigNum sig) now (x, w) else (x, w))"

definition run :: "exec \<times> world \<Rightarrow> event list \<Rightarrow> exec \<times> world" where
  "run st es = foldl step st es"

text \<open>
  The synchronous part of \<open>execute\<close>, up to the point where the promise is returned: the
  thrown error, or the closure variables and the registry. \<open>w\<close> is the registry before
  the call.
\<close>

definition defaultBackgroundMs :: "bash_defaults \<Rightarrow> host \<Rightarrow> js_number" where
  "defaultBackgroundMs d h =
     clampNumber (case backgroundMs d of Some v \<Rightarrow> Some v | None \<Rightarrow> env_yield_ms h)
       (Fin 20000) (Fin 10) (Fin 120000)"

definition defaultTimeoutSec :: "bash_defaults \<Rightarrow> js_number" where
  "defaultTimeoutSec d =
     (case timeoutSec d of Some t \<Rightarrow> if gt_zero t then t else Fin 1800 | None \<Rightarrow> Fin 1800)"

definition yieldWindow :: "bash_defaults \<Rightarrow> host \<Rightarrow> bash_params \<Rightarrow> js_number" where
  "yieldWindow d h p =
     (if p_background p = Some True then Fin 0
      else clampNumber
             (Some (case p_yieldMs p of Some v \<Rightarrow> v | None \<Rightarrow> defaultBackgroundMs d h))
             (defaultBackgroundMs d h) (Fin 10) (Fin 120000))"

text \<open>
  The transport: the warning, the mode actually used, and the child and PTY handles.
\<close>

definition choose_transport ::
  "host \<Rightarrow> bash_params \<Rightarrow> jstring option \<times> stdin_mode \<times> nat option option \<times> nat option" where
  "choose_transport h p =
     (if p_stdinMode p = Some Pty
      then
        (case pty_backend h of
           LoadFails e \<Rightarrow>
             (Some (js ''Warning: node-pty failed to load'' @ formatPtyError e @ js ''; ''
                    @ js ''falling back to pipe mode.''),
              Pipe, Some (spawn_pid h), None)
         | SpawnFails e \<Rightarrow>
             (Some (js ''Warning: node-pty failed to start'' @ formatPtyError e @ js ''; ''
                    @ js ''falling back to pipe mode.''),
              Pipe, Some (spawn_pid h), None)
         | PtySpawned ppid \<Rightarrow> (None, Pty, None, Some ppid))
      else (None, Pipe, Some (spawn_pid h), None))"

text \<open>The session object that \<open>execute\<close> builds and registers.\<close>

definition new_session ::
  "host \<Rightarrow> bash_params \<Rightarrow> stdin_mode \<Rightarrow> nat option option \<Rightarrow> nat option \<Rightarrow> session" where
  "new_session h p mode ch pt =
     \<lparr>sid = uuid h, command = p_command p, startedAt = date_now h,
      cwd = (case p_workdir p of
               Some wd \<Rightarrow> if trim wd \<noteq> [] then trim wd else process_cwd h
             | None \<Rightarrow> process_cwd h),
      aggregated = [], tail = [], truncated = False,
      exitCode = None, exitSignal = None,
      child = ch, pty = pt,
      pid = (case ch of Some (Some cp) \<Rightarrow> Some cp | _ \<Rightarrow> pt),
      stdinMode = mode, maxOutputChars = max_output h, totalOutputChars = 0,
      pendingStdout = [], pendingStderr = [],
      exited = False, backgrounded = False\<rparr>"

text \<open>
  The closure variables once the timeout timer and the listeners are set up, before the
  yield window is looked at.
\<close>

definition new_exec ::
  "bash_defaults \<Rightarrow> host \<Rightarrow> bash_params \<Rightarrow> jstring option \<Rightarrow> bool \<Rightarrow> bool \<Rightarrow> exec" where
  "new_exec d h p warn with_child with_pty =
     (let timeout = (case p_timeout p of Some t \<Rightarrow> t | None \<Rightarrow> defaultTimeoutSec d)
      in \<lparr>sessionId_x = uuid h, startedAt_x = date_now h, warning = warn,
          effectiveTimeout = timeout,
          has_child = with_child, has_pty = with_pty,
          onUpdate_x = has_onUpdate h,
          aborted = (signal h = Some True),
          abort_listener = (signal h = Some False),
          exit_listener = with_child, error_listener = with_child,
          settled = False, yielded = False, timedOut = False,
          yieldTimer = False, timeoutTimer = gt_zero timeout,
          settlements = [], updates = []\<rparr>)"

definition bash_start ::
  "bash_defaults \<Rightarrow> host \<Rightarrow> world \<Rightarrow> bash_params \<Rightarrow> js_value + exec \<times> world" where
  "bash_start d h w p =
     (if p_command p = [] then Inl (ErrorObj (js ''Provide a command to start.''))
      else
        case choose_transport h p of (warn, mode, ch, pt) \<Rightarrow>
          let w1 = addSession (new_session h p mode ch pt) w;
              x = new_exec d h p warn (ch \<noteq> None) (pt \<noteq> None);
              st1 = (if signal h = Some True then onAbort (x, w1) else (x, w1))
          in Inr (if yieldWindow d h p = Fin 0 then onYieldNow st1
                  else (fst st1\<lparr>yieldTimer := True\<rparr>, snd st1)))"

section \<open>Notions of the specification\<close>

text \<open>Line-normalised output as the spec words it: without one final line feed.\<close>

definition strip_final_lf :: "jstring \<Rightarrow> jstring" where
  "strip_final_lf s = (if s \<noteq> [] \<and> last s = LF then butlast s else s)"

text \<open>A finite number read as a count of lines: floored, a negative value counting as 0.\<close>

definition line_count :: "rat \<Rightarrow> nat" where
  "line_count q = nat \<lfloor>q\<rfloor>"

text \<open>
  The window of lines the spec describes: with no offset and a limit the last \<open>limit\<close>
  lines, otherwise the lines \<open>[offset, offset + limit)\<close>, all lines from \<open>offset\<close> on when
  there is no limit, the offset defaulting to 0.
\<close>

definition spec_log_window :: "jstring list \<Rightarrow> rat option \<Rightarrow> rat option \<Rightarrow> jstring list" where
  "spec_log_window ls ofs lm =
     (case (ofs, lm) of
        (None, Some q) \<Rightarrow> drop (length ls - line_count q) ls
      | (Some p, Some q) \<Rightarrow> take (line_count q) (drop (line_count p) ls)
      | (Some p, None) \<Rightarrow> drop (line_count p) ls
      | (None, None) \<Rightarrow> ls)"

text \<open>
  Death by signal: an exit signal was reported and it names a signal, that is, it is not
  the empty name and not the number 0 that node-pty reports for a normal exit.
\<close>

definition died_by_signal :: "exit_signal option \<Rightarrow> bool" where
  "died_by_signal sig = (case sig of Some g \<Rightarrow> truthy_signal g | None \<Rightarrow> False)"

text \<open>
  The events on which the call is settled if it was not before: the yield timer firing,
  and the exit or error event of the transport in use.
\<close>

definition settling :: "exec \<Rightarrow> event \<Rightarrow> bool" where
  "settling x e =
     (case e of
        YieldTimerFires \<Rightarrow> True
      | ChildExit code sig now \<Rightarrow> has_child x
      | ChildError err now \<Rightarrow> has_child x
      | PtyExit code sig now \<Rightarrow> has_pty x
      | _ \<Rightarrow> False)"

text \<open>The events that end a run: an exit or an error of the process.\<close>

fun ends_run :: "event \<Rightarrow> bool" where
  "ends_run (ChildExit code sig now) = True"
| "ends_run (ChildError err now) = True"
| "ends_run (PtyExit code k now) = True"
| "ends_run _ = False"

text \<open>
  The exit that an event reports for the transport in use, as the exit code and the exit
  signal that \<open>handleExit\<close> is called with.
\<close>

fun exit_event :: "exec \<Rightarrow> event \<Rightarrow> (int option \<times> exit_signal option) option" where
  "exit_event x (ChildExit code sig now) = (if has_child x then Some (code, sig) else None)"
| "exit_event x (PtyExit code k now) =
     (if has_pty x then Some (code, map_option SigNum k) else None)"
| "exit_event x _ = None"

section \<open>The invariant of a call\<close>

text \<open>
  What holds of the closure variables and the session between events: a backgrounded
  session was yielded, a yielded call is settled, a call whose yield timer or one-shot
  listeners are used up is settled, and \<open>settlements\<close> holds one entry exactly when
  \<open>settled\<close> is set.
\<close>

definition exec_inv :: "exec \<times> world \<Rightarrow> bool" where
  "exec_inv st \<longleftrightarrow>
     (case st of (x, w) \<Rightarrow>
        (case heap w (sessionId_x x) of
           None \<Rightarrow> False
         | Some s \<Rightarrow> backgrounded s \<longrightarrow> yielded x)
        \<and> (yielded x \<longrightarrow> settled x)
        \<and> (\<not> yieldTimer x \<longrightarrow> settled x)
        \<and> (has_child x \<and> \<not> exit_listener x \<longrightarrow> settled x)
        \<and> (has_child x \<and> \<not> error_listener x \<longrightarrow> settled x)
        \<and> (settled x \<longrightarrow> length (settlements x) = 1)
        \<and> (\<not> settled x \<longrightarrow> settlements x = []))"

text \<open>What a data listener leaves alone.\<close>

definition data_rel :: "exec \<times> world \<Rightarrow> exec \<times> world \<Rightarrow> bool" where
  "data_rel st st' \<longleftrightarrow>
     (\<exists>u. fst st' = (fst st)\<lparr>updates := u\<rparr>)
     \<and> (\<exists>s s'. heap (snd st) (sessionId_x (fst st)) = Some s
              \<and> heap (snd st') (sessionId_x (fst st)) = Some s'
              \<and> backgrounded s' = backgrounded s \<and> exited s' = exited s)"

text \<open>The settlement that \<open>handleExit\<close> asks for when the call was not yielded.\<close>

definition exit_settlement ::
  "exec \<Rightarrow> session \<Rightarrow> int option \<Rightarrow> exit_signal option \<Rightarrow> int \<Rightarrow> settlement" where
  "exit_settlement x s code sig now =
     (if \<not> isSuccess x code sig
      then Rejected (ErrorObj
             (if trim (aggregated s) \<noteq> []
              then trim (aggregated s) @ [LF, LF] @ failure_reason x code sig
              else failure_reason x code sig))
      else Resolved
             (warning_prefix x
              @ (if trim (aggregated s) \<noteq> [] then trim (aggregated s) else js ''(no output)''))
             (CompletedDetails (case code of Some c \<Rightarrow> c | None \<Rightarrow> 0)
                (now - startedAt_x x) (trim (aggregated s))))"

section \<open>Example states\<close>

definition example_session :: session where
  "example_session =
     \<lparr>sid = js ''s1'', command = js ''sleep 60'', startedAt = 1000, cwd = js ''/tmp'',
      aggregated = js ''a\<newline>b'', tail = js ''a\<newline>b'', truncated = False,
      exitCode = None, exitSignal = None,
      child = Some (Some 4321), pty = None, pid = Some 4321, stdinMode = Pipe,
      maxOutputChars = 30000, totalOutputChars = 3,
      pendingStdout = [js ''a\<newline>b''], pendingStderr = [],
      exited = False, backgrounded = False\<rparr>"

definition example_finished :: "jstring \<Rightarrow> jstring \<Rightarrow> finished_session" where
  "example_finished i out =
     \<lparr>sid = i, command = js ''make'', startedAt = 500, cwd = js ''/tmp'',
      aggregated = out, tail = out, truncated = False,
      exitCode = Some 0, exitSignal = None, endedAt = 900, status = Completed\<rparr>"

definition example_world :: world where
  "example_world =
     \<lparr>heap = [js ''s1'' \<mapsto> example_session,
              js ''s2'' \<mapsto> example_session\<lparr>sid := js ''s2'', pid := Some 4322,
                                              backgrounded := True\<rparr>],
      running = {js ''s1'', js ''s2''},
      finished = [js ''s3'' \<mapsto> example_finished (js ''s3'') (js ''x'' @ [CR, LF] @ js ''y\<newline>z\<newline>''),
                  js ''s4'' \<mapsto> example_finished (js ''s4'') [LF]],
      effects = [],
      tailLimit = 2000\<rparr>"

definition empty_world :: world where
  "empty_world = \<lparr>heap = Map.empty, running = {}, finished = Map.empty, effects = [],
                   tailLimit = 2000\<rparr>"

definition example_defaults :: bash_defaults where
  "example_defaults = \<lparr>backgroundMs = Some (Fin 10), timeoutSec = Some (Fin 1)\<rparr>"

definition example_host :: host where
  "example_host =
     \<lparr>env_yield_ms = None, process_cwd = js ''/work'', uuid = js ''u1'', date_now = 1000,
      pty_backend = LoadFails (ErrorObj (js ''boom'')), spawn_pid = Some 77, signal = None,
      has_onUpdate = False, max_output = 30000\<rparr>"

definition example_params :: "jstring \<Rightarrow> stdin_mode option \<Rightarrow> bash_params" where
  "example_params cmd mode =
     \<lparr>p_command = cmd, p_workdir = None, p_yieldMs = None, p_background = None,
      p_timeout = None, p_stdinMode = mode\<rparr>"

text \<open>
  The state of a call right after \<open>execute\<close> returned its promise, for the example host
  (node-pty fails to load with \<open>boom\<close>) and \<open>stdinMode = pty\<close>.
\<close>

definition fallback_state :: "jstring \<Rightarrow> exec \<times> world" where
  "fallback_state cmd =
     (\<lparr>sessionId_x = js ''u1'', startedAt_x = 1000,
       warning = Some (js ''Warning: node-pty failed to load (boom); falling back to pipe mode.''),
       effectiveTimeout = Fin 1, has_child = True, has_pty = False,
       onUpdate_x = False, aborted = False, abort_listener = False,
       exit_listener = True, error_listener = True, settled = False,
       yielded = False, timedOut = False, yieldTimer = True,
       timeoutTimer = True, settlements = [], updates = []\<rparr>,
      \<lparr>heap = [js ''u1'' \<mapsto>
                \<lparr>sid = js ''u1'', command = cmd, startedAt = 1000,
                 cwd = js ''/work'', aggregated = [], tail = [],
                 truncated = False, exitCode = None, exitSignal = None,
                 child = Some (Some 77), pty = None, pid = Some 77,
                 stdinMode = Pipe, maxOutputChars = 30000,
                 totalOutputChars = 0, pendingStdout = [],
                 pendingStderr = [], exited = False,
                 backgrounded = False\<rparr>],
       running = {js ''u1''}, finished = Map.empty, effects = [],
       tailLimit = 2000\<rparr>)"

text \<open>
  A call in pipe mode with a yield window of five seconds and a timeout \<open>t\<close>, and its state
  right after \<open>execute\<close> returned its promise; \<open>child_pid\<close> is the pid of the spawned child,
  undefined when the spawn failed.
\<close>

definition plain_params :: "jstring \<Rightarrow> js_number \<Rightarrow> bash_params" where
  "plain_params cmd t =
     \<lparr>p_command = cmd, p_workdir = None, p_yieldMs = Some (Fin 5000), p_background = None,
      p_timeout = Some t, p_stdinMode = None\<rparr>"

definition plain_state :: "jstring \<Rightarrow> js_number \<Rightarrow> nat option \<Rightarrow> exec \<times> world" where
  "plain_state cmd t child_pid =
     (\<lparr>sessionId_x = js ''u1'', startedAt_x = 1000, warning = None,
       effectiveTimeout = t, has_child = True, has_pty = False,
       onUpdate_x = False, aborted = False, abort_listener = False,
       exit_listener = True, error_listener = True, settled = False,
       yielded = False, timedOut = False, yieldTimer = True,
       timeoutTimer = gt_zero t, settlements = [], updates = []\<rparr>,
      \<lparr>heap = [js ''u1'' \<mapsto>
                \<lparr>sid = js ''u1'', command = cmd, startedAt = 1000,
                 cwd = js ''/work'', aggregated = [], tail = [],
                 truncated = False, exitCode = None, exitSignal = None,
                 child = Some child_pid, pty = None, pid = child_pid,
                 stdinMode = Pipe, maxOutputChars = 30000,
                 totalOutputChars = 0, pendingStdout = [],
                 pendingStderr = [], exited = False,
                 backgrounded = False\<rparr>],
       running = {js ''u1''}, finished = Map.empty, effects = [],
       tailLimit = 2000\<rparr>)"

section \<open>Properties\<close>

subsection \<open>Lines of a log\<close>

lemma split_lf_not_Nil: "split_lf s \<noteq> []"
  by (induction s) (auto split: list.splits)

lemma join_lf_Cons: "ls \<noteq> [] \<Longrightarrow> join_lf (l # ls) = l @ LF # join_lf ls"
  by (cases ls) auto

lemma join_split_lf: "join_lf (split_lf s) = s"
proof (induction s)
  case Nil
  show ?case by simp
next
  case (Cons c cs)
  show ?case
  proof (cases "c = LF")
    case True
    with Cons show ?thesis by (simp add: join_lf_Cons split_lf_not_Nil)
  next
    case False
    obtain l ls where sp: "split_lf cs = l # ls"
      using split_lf_not_Nil by (cases "split_lf cs") auto
    have "join_lf ((c # l) # ls) = c # join_lf (l # ls)"
      by (cases ls) auto
    with Cons False sp show ?thesis by simp
  qed
qed

lemma last_split_lf: "last (split_lf s) = [] \<longleftrightarrow> s = [] \<or> last s = LF"
proof (induction s)
  case Nil
  show ?case by simp
next
  case (Cons c cs)
  obtain l ls where sp: "split_lf cs = l # ls"
    using split_lf_not_Nil by (cases "split_lf cs") auto
  show ?case
  proof (cases "c = LF")
    case True
    with Cons sp show ?thesis by auto
  next
    case False
    have single: "ls = [] \<Longrightarrow> l = [] \<Longrightarrow> cs = []"
      using sp join_split_lf [of cs] by simp
    show ?thesis
    proof (cases "ls = []")
      case True
      with Cons sp False single show ?thesis by (cases "cs = []") auto
    next
      case ne: False
      with Cons sp False show ?thesis by (cases "cs = []") auto
    qed
  qed
qed

lemma length_split_lf: "length (split_lf s) = Suc (count_list s LF)"
  by (induction s) (auto split: list.splits simp: split_lf_not_Nil)

lemma join_lf_snoc_empty: "ls \<noteq> [] \<Longrightarrow> join_lf (ls @ [[]]) = join_lf ls @ [LF]"
proof (induction ls rule: join_lf.induct)
  case 1
  then show ?case by simp
next
  case (2 l)
  show ?case by simp
next
  case (3 l m ls)
  then show ?case by simp
qed

lemma join_pop_split: "join_lf (pop_trailing_empty (split_lf s)) = strip_final_lf s"
proof (cases "s = [] \<or> last s = LF")
  case False
  then have "last (split_lf s) \<noteq> []" by (simp add: last_split_lf)
  with False show ?thesis
    by (simp add: pop_trailing_empty_def strip_final_lf_def join_split_lf)
next
  case True
  then have le: "last (split_lf s) = []" by (simp add: last_split_lf)
  then have eq: "split_lf s = butlast (split_lf s) @ [[]]"
    using split_lf_not_Nil [of s] by (metis append_butlast_last_id)
  show ?thesis
  proof (cases "butlast (split_lf s) = []")
    case True
    with eq have "split_lf s = [[]]" by simp
    then have "join_lf (split_lf s) = []" by simp
    then have "s = []" by (simp add: join_split_lf)
    then show ?thesis by (simp add: pop_trailing_empty_def strip_final_lf_def)
  next
    case False
    then have "join_lf (butlast (split_lf s) @ [[]]) = join_lf (butlast (split_lf s)) @ [LF]"
      by (rule join_lf_snoc_empty)
    with eq have "s = join_lf (butlast (split_lf s)) @ [LF]"
      using join_split_lf [of s] by simp
    then have "butlast s = join_lf (butlast (split_lf s))" "s \<noteq> []" "last s = LF"
      by (metis butlast_snoc, auto) (metis last_snoc)
    with le show ?thesis
      using split_lf_not_Nil [of s] by (simp add: pop_trailing_empty_def strip_final_lf_def)
  qed
qed

lemma length_log_lines:
  "length (log_lines t) =
     (let n = replace_crlf t in count_list n LF + (if n = [] \<or> last n = LF then 0 else 1))"
  using split_lf_not_Nil [of "replace_crlf t"]
  by (auto simp: log_lines_def pop_trailing_empty_def Let_def last_split_lf length_split_lf)

lemma replace_crlf_Nil_iff: "replace_crlf t = [] \<longleftrightarrow> t = []"
  by (induction t rule: replace_crlf.induct) auto

lemma max0_floor: "math_max (Fin 0) (math_floor (Fin q)) = Fin (of_nat (line_count q))"
  by (simp add: line_count_def max_def) 

lemma rel_index_of_nat: "rel_index len (Fin (of_nat k)) = min k len"
  by (simp add: truncate_rat_def)

lemma js_slice_from: "js_slice xs (Fin (of_nat k)) None = drop k xs"
  by (cases "k \<le> length xs") (simp_all add: js_slice_def rel_index_of_nat del: rel_index.simps)

lemma js_slice_window:
  "js_slice xs (Fin (of_nat k)) (Some (js_add (Fin (of_nat k)) (Fin (of_nat m)))) = take m (drop k xs)"
proof -
  have "js_add (Fin (of_nat k)) (Fin (of_nat m)) = Fin (of_nat (k + m))" by simp
  then show ?thesis
  proof (cases "k \<le> length xs")
    case True
    then show ?thesis
      using \<open>js_add (Fin (of_nat k)) (Fin (of_nat m)) = Fin (of_nat (k + m))\<close>
      by (cases "k + m \<le> length xs")
         (simp_all add: js_slice_def rel_index_of_nat Let_def del: js_add.simps of_nat_add rel_index.simps)
  next
    case False
    then show ?thesis
      using \<open>js_add (Fin (of_nat k)) (Fin (of_nat m)) = Fin (of_nat (k + m))\<close>
      by (simp add: js_slice_def rel_index_of_nat Let_def del: js_add.simps of_nat_add rel_index.simps)
  qed
qed

lemma tail_start:
  "math_max (js_sub (Fin (of_nat n)) (Fin (of_nat m))) (Fin 0) = Fin (of_nat (n - m))"
  by (simp add: js_sub_def max_def of_nat_diff)

lemma log_lines_Nil: "log_lines [] = []"
  by (simp add: log_lines_def pop_trailing_empty_def)

lemma sliceLogLines_fields:
  "slice_str (sliceLogLines t a b) =
     join_lf (js_slice (log_lines t) (log_start (length (log_lines t)) a b)
                (log_end (log_start (length (log_lines t)) a b) b))"
  "totalLines (sliceLogLines t a b) = length (log_lines t)"
  "totalChars (sliceLogLines t a b) = length t"
  by (simp_all add: sliceLogLines_def Let_def log_lines_Nil js_slice_def)

lemma js_slice_from0: "js_slice xs (Fin 0) None = xs"
  using js_slice_from [of xs 0] by simp

lemma slice_window:
  "slice_str (sliceLogLines t (map_option Fin ofs) (map_option Fin lm)) =
     join_lf (spec_log_window (log_lines t) ofs lm)"
proof -
  let ?n = "length (log_lines t)"
  show ?thesis
  proof (cases ofs)
    case None
    note o = None
    show ?thesis
    proof (cases lm)
      case None
      with o show ?thesis
        by (simp add: sliceLogLines_fields log_start_def log_end_def spec_log_window_def
            js_slice_from0)
    next
      case (Some q)
      have "take (line_count q) (drop (?n - line_count q) (log_lines t)) =
            drop (?n - line_count q) (log_lines t)"
        by simp
      with o Some show ?thesis
        by (simp add: sliceLogLines_fields log_start_def log_end_def spec_log_window_def
            max0_floor tail_start js_slice_window
            del: math_max.simps math_floor.simps js_add.simps)
    qed
  next
    case (Some p)
    note o = Some
    show ?thesis
    proof (cases lm)
      case None
      with o show ?thesis
        by (simp add: sliceLogLines_fields log_start_def log_end_def spec_log_window_def
            max0_floor js_slice_from del: math_max.simps math_floor.simps)
    next
      case (Some q)
      with o show ?thesis
        by (simp add: sliceLogLines_fields log_start_def log_end_def spec_log_window_def
            max0_floor js_slice_window del: math_max.simps math_floor.simps js_add.simps)
    qed
  qed
qed

lemma slice_all:
  "b = None \<or> b = Some PosInf \<Longrightarrow>
   slice_str (sliceLogLines t (Some (Fin 0)) b) = strip_final_lf (replace_crlf t)"
proof -
  assume b: "b = None \<or> b = Some PosInf"
  have "log_end (log_start (length (log_lines t)) (Some (Fin 0)) b) b = None"
    using b by (auto simp: log_end_def)
  moreover have "log_start (length (log_lines t)) (Some (Fin 0)) b = Fin 0"
    using b by (auto simp: log_start_def)
  ultimately have "slice_str (sliceLogLines t (Some (Fin 0)) b) = join_lf (log_lines t)"
    by (simp only: sliceLogLines_fields js_slice_from0)
  then show ?thesis by (simp add: log_lines_def join_pop_split)
qed

lemma sliceLogLines_totals:
  "totalChars (sliceLogLines t a b) = length t"
  "totalLines (sliceLogLines t a b) = length (pop_trailing_empty (split_lf (replace_crlf t)))"
  "totalLines (sliceLogLines t a b) =
     count_list (replace_crlf t) LF
     + (if replace_crlf t = [] \<or> last (replace_crlf t) = LF then 0 else 1)"
proof -
  show "totalChars (sliceLogLines t a b) = length t"
    by (rule sliceLogLines_fields)
  show "totalLines (sliceLogLines t a b) = length (pop_trailing_empty (split_lf (replace_crlf t)))"
    by (simp only: sliceLogLines_fields log_lines_def)
  have "length (log_lines t) =
      count_list (replace_crlf t) LF
      + (if replace_crlf t = [] \<or> last (replace_crlf t) = LF then 0 else 1)"
    using length_log_lines [of t] by (simp only: Let_def)
  then show "totalLines (sliceLogLines t a b) =
     count_list (replace_crlf t) LF
     + (if replace_crlf t = [] \<or> last (replace_crlf t) = LF then 0 else 1)"
    by (simp only: sliceLogLines_fields)
qed

subsection \<open>The controller\<close>

lemma example_lookups:
  "getSession example_world (js ''s1'') = Some example_session"
  "getSession example_world (js ''s2'') =
     Some (example_session\<lparr>sid := js ''s2'', pid := Some 4322, backgrounded := True\<rparr>)"
  "getSession example_world (js ''s3'') = None"
  "getSession example_world (js ''s4'') = None"
  "getFinishedSession example_world (js ''s3'') =
     Some (example_finished (js ''s3'') (js ''x'' @ [CR, LF] @ js ''y\<newline>z\<newline>''))"
  "getFinishedSession example_world (js ''s4'') = Some (example_finished (js ''s4'') [LF])"
  by (simp_all add: getSession_def getFinishedSession_def example_world_def js_def)

text \<open>
  C6, amended: a \<open>poll\<close> on a live session, one that the registry still holds as running,
  that has not been backgrounded returns a failure result (status \<open>failed\<close>, and for a
  non-empty id the text \<open>Session <id> is not backgrounded.\<close>) and leaves the whole
  registry, hence the session and its pending buffers, as it was.
\<close>

theorem poll_not_backgrounded:
  assumes "getSession w i = Some s" and "\<not> backgrounded s"
  shows "snd (process_execute w now \<lparr>action = Poll, sessionId = Some i, offset = a, limit = b\<rparr>) = w
         \<and> r_status (fst (process_execute w now
               \<lparr>action = Poll, sessionId = Some i, offset = a, limit = b\<rparr>)) = Failed
         \<and> (i \<noteq> [] \<longrightarrow>
              r_text (fst (process_execute w now
                \<lparr>action = Poll, sessionId = Some i, offset = a, limit = b\<rparr>))
              = js ''Session '' @ i @ js '' is not backgrounded.'')"
  using assms
  by (simp add: process_execute_def poll_action_def not_backgrounded_def plain_result_def)

theorem poll_not_backgrounded_witness:
  "getSession example_world (js ''s1'') = Some example_session
   \<and> \<not> backgrounded example_session
   \<and> snd (process_execute example_world 2000
        \<lparr>action = Poll, sessionId = Some (js ''s1''), offset = None, limit = None\<rparr>) = example_world
   \<and> r_text (fst (process_execute example_world 2000
        \<lparr>action = Poll, sessionId = Some (js ''s1''), offset = None, limit = None\<rparr>))
       = js ''Session s1 is not backgrounded.''"
proof -
  have h1: "getSession example_world (js ''s1'') = Some example_session"
    by (rule example_lookups)
  have h2: "\<not> backgrounded example_session"
    by (simp add: example_session_def)
  have ne: "js ''s1'' \<noteq> []" by (simp add: js_def)
  have "js ''Session '' @ js ''s1'' @ js '' is not backgrounded.'' = js ''Session s1 is not backgrounded.''"
    by (simp add: js_def)
  with poll_not_backgrounded [OF h1 h2, of 2000 None None] h1 h2 ne show ?thesis
    by simp
qed

lemma remove_finished_deletes:
  assumes "i \<noteq> []" and "getSession w i = None" and "getFinishedSession w i = Some f"
  shows "process_execute w now \<lparr>action = Remove, sessionId = Some i, offset = a, limit = b\<rparr>
         = (plain_result (js ''Removed session '' @ i @ js ''.'') Completed, deleteSession i w)"
    and "getSession (deleteSession i w) i = None"
    and "getFinishedSession (deleteSession i w) i = None"
  using assms
  by (simp_all add: process_execute_def remove_action_def deleteSession_def getSession_def
      getFinishedSession_def)

lemma remove_absent_fails:
  assumes "i \<noteq> []" and "getSession w i = None" and "getFinishedSession w i = None"
  shows "process_execute w now \<lparr>action = Remove, sessionId = Some i, offset = a, limit = b\<rparr>
         = (plain_result (js ''No session found for '' @ i) Failed, w)"
  using assms by (simp add: process_execute_def remove_action_def)

lemma remove_live_marks_exited:
  assumes "i \<noteq> []" and "getSession w i = Some s"
  shows "process_execute w now \<lparr>action = Remove, sessionId = Some i, offset = a, limit = b\<rparr>
         = (plain_result (js ''Removed session '' @ i @ js ''.'') Failed,
            markExited i None (Some SIGKILL) Failed now (killSession s w))"
  using assms by (simp add: process_execute_def remove_action_def)

text \<open>
  C3: \<open>remove\<close> on a live session kills the process tree and answers
  \<open>Removed session <id>.\<close>, but it calls \<open>markExited\<close> and never \<open>deleteSession\<close>: the session
  leaves the live set and stays in the registry as a finished entry with status \<open>failed\<close>
  and its output retained. The finished branch of the same action does delete, and an
  unknown id gives a failure result (\<open>remove_finished_deletes\<close>, \<open>remove_absent_fails\<close>).
\<close>

theorem remove_live_still_stored:
  "r_text (fst (process_execute example_world 5000
      \<lparr>action = Remove, sessionId = Some (js ''s2''), offset = None, limit = None\<rparr>))
     = js ''Removed session s2.''
   \<and> effects (snd (process_execute example_world 5000
      \<lparr>action = Remove, sessionId = Some (js ''s2''), offset = None, limit = None\<rparr>))
     = [KillProcessTree 4322]
   \<and> getSession (snd (process_execute example_world 5000
      \<lparr>action = Remove, sessionId = Some (js ''s2''), offset = None, limit = None\<rparr>)) (js ''s2'')
     = None
   \<and> map_option status (getFinishedSession (snd (process_execute example_world 5000
      \<lparr>action = Remove, sessionId = Some (js ''s2''), offset = None, limit = None\<rparr>)) (js ''s2''))
     = Some Failed
   \<and> map_option aggregated (getFinishedSession (snd (process_execute example_world 5000
      \<lparr>action = Remove, sessionId = Some (js ''s2''), offset = None, limit = None\<rparr>)) (js ''s2''))
     = Some (js ''a\<newline>b'')"
proof -
  have ne: "js ''s2'' \<noteq> []" by (simp add: js_def)
  note r = remove_live_marks_exited [OF ne example_lookups(2), of 5000 None None]
  show ?thesis
    unfolding r
    by (simp add: plain_result_def markExited_def killSession_def kill_pid_def
        example_world_def example_session_def getSession_def getFinishedSession_def
        finished_entry_def Let_def js_def)
qed

lemma log_action_live:
  assumes "getSession w i = Some s" and "backgrounded s"
  shows "log_action w i a b =
     ((plain_result
         (if slice_str (sliceLogLines (aggregated s) a b) \<noteq> []
          then slice_str (sliceLogLines (aggregated s) a b) else js ''(no output yet)'')
         (if exited s then Completed else Running))
      \<lparr>r_sessionId := Some i,
       r_totalLines := Some (totalLines (sliceLogLines (aggregated s) a b)),
       r_totalChars := Some (totalChars (sliceLogLines (aggregated s) a b)),
       r_truncated := Some (truncated s)\<rparr>, w)"
  using assms by (simp add: log_action_def Let_def)

lemma log_action_finished:
  assumes "getSession w i = None" and "getFinishedSession w i = Some f"
  shows "log_action w i a b =
     ((plain_result
         (if slice_str (sliceLogLines (aggregated f) a b) \<noteq> []
          then slice_str (sliceLogLines (aggregated f) a b) else js ''(no output recorded)'')
         (if status f = Completed then Completed else Failed))
      \<lparr>r_sessionId := Some i,
       r_totalLines := Some (totalLines (sliceLogLines (aggregated f) a b)),
       r_totalChars := Some (totalChars (sliceLogLines (aggregated f) a b)),
       r_truncated := Some (truncated f),
       r_exitCode := exitCode f, r_exitSignal := exitSignal f\<rparr>, w)"
  using assms by (simp add: log_action_def Let_def)

lemma process_execute_log:
  "i \<noteq> [] \<Longrightarrow>
   process_execute w now \<lparr>action = Log, sessionId = Some i, offset = a, limit = b\<rparr>
   = log_action w i a b"
  by (simp add: process_execute_def)

lemma totals_not_reported:
  assumes "i \<noteq> []"
    and "(getSession w i = Some s \<and> \<not> backgrounded s)
         \<or> (getSession w i = None \<and> getFinishedSession w i = None)"
  shows "r_totalChars (fst (process_execute w now
             \<lparr>action = Log, sessionId = Some i, offset = a, limit = b\<rparr>)) = None"
    and "r_totalLines (fst (process_execute w now
             \<lparr>action = Log, sessionId = Some i, offset = a, limit = b\<rparr>)) = None"
    and "r_status (fst (process_execute w now
             \<lparr>action = Log, sessionId = Some i, offset = a, limit = b\<rparr>)) = Failed"
  using assms(2)
  by (auto simp: process_execute_log [OF assms(1)] log_action_def not_backgrounded_def
      plain_result_def)

text \<open>
  C10: for every aggregated text that the \<open>log\<close> action reports on, that of a finished
  session or of a live session that has been backgrounded, and whatever the offset and
  the limit: the reported \<open>totalChars\<close> is the length of the raw text, before CRLF
  normalisation, and the reported \<open>totalLines\<close> is the number of segments obtained by
  normalising CRLF to LF, splitting on LF and dropping one final empty segment; so a
  single trailing newline does not add a counted line: the count is the number of line
  feeds of the normalised text, plus one when that text is non-empty and does not end in
  a line feed. (For a live session that is not backgrounded, and for an unknown id, the
  action fails and reports no totals: \<open>totals_not_reported\<close>.)
\<close>

theorem log_totals:
  assumes "i \<noteq> []"
    and "(getSession w i = Some s \<and> backgrounded s \<and> t = aggregated s)
         \<or> (getSession w i = None \<and> getFinishedSession w i = Some f \<and> t = aggregated f)"
  shows "r_totalChars (fst (process_execute w now
             \<lparr>action = Log, sessionId = Some i, offset = a, limit = b\<rparr>))
           = Some (length t)
         \<and> r_totalLines (fst (process_execute w now
             \<lparr>action = Log, sessionId = Some i, offset = a, limit = b\<rparr>))
           = Some (length (pop_trailing_empty (split_lf (replace_crlf t))))
         \<and> r_totalLines (fst (process_execute w now
             \<lparr>action = Log, sessionId = Some i, offset = a, limit = b\<rparr>))
           = Some (count_list (replace_crlf t) LF
                   + (if replace_crlf t = [] \<or> last (replace_crlf t) = LF then 0 else 1))"
proof -
  have r: "r_totalChars (fst (process_execute w now
             \<lparr>action = Log, sessionId = Some i, offset = a, limit = b\<rparr>))
           = Some (totalChars (sliceLogLines t a b))
         \<and> r_totalLines (fst (process_execute w now
             \<lparr>action = Log, sessionId = Some i, offset = a, limit = b\<rparr>))
           = Some (totalLines (sliceLogLines t a b))"
    using assms(2)
  proof
    assume "getSession w i = Some s \<and> backgrounded s \<and> t = aggregated s"
    then show ?thesis
      by (simp add: process_execute_log [OF assms(1)] log_action_live plain_result_def)
  next
    assume "getSession w i = None \<and> getFinishedSession w i = Some f \<and> t = aggregated f"
    then show ?thesis
      by (simp add: process_execute_log [OF assms(1)] log_action_finished plain_result_def)
  qed
  from r [THEN conjunct1] have "r_totalChars (fst (process_execute w now
             \<lparr>action = Log, sessionId = Some i, offset = a, limit = b\<rparr>))
           = Some (length t)"
    by (simp only: sliceLogLines_totals(1))
  moreover from r [THEN conjunct2] have "r_totalLines (fst (process_execute w now
             \<lparr>action = Log, sessionId = Some i, offset = a, limit = b\<rparr>))
           = Some (length (pop_trailing_empty (split_lf (replace_crlf t))))"
    by (simp only: sliceLogLines_totals(2))
  moreover from r [THEN conjunct2] have "r_totalLines (fst (process_execute w now
             \<lparr>action = Log, sessionId = Some i, offset = a, limit = b\<rparr>))
           = Some (count_list (replace_crlf t) LF
                   + (if replace_crlf t = [] \<or> last (replace_crlf t) = LF then 0 else 1))"
    using sliceLogLines_totals(3) [of t a b] by simp
  ultimately show ?thesis by (simp only: simp_thms)
qed

theorem log_totals_witness:
  "js ''s2'' \<noteq> []
   \<and> map_option backgrounded (getSession example_world (js ''s2'')) = Some True
   \<and> map_option aggregated (getSession example_world (js ''s2'')) = Some (js ''a\<newline>b'')
   \<and> r_totalChars (fst (process_execute example_world 2000
         \<lparr>action = Log, sessionId = Some (js ''s2''), offset = None, limit = Some (Fin 1)\<rparr>))
       = Some 3
   \<and> r_totalLines (fst (process_execute example_world 2000
         \<lparr>action = Log, sessionId = Some (js ''s2''), offset = None, limit = Some (Fin 1)\<rparr>))
       = Some 2
   \<and> getSession example_world (js ''s3'') = None
   \<and> map_option aggregated (getFinishedSession example_world (js ''s3''))
       = Some (js ''x'' @ [CR, LF] @ js ''y\<newline>z\<newline>'')
   \<and> r_totalChars (fst (process_execute example_world 2000
         \<lparr>action = Log, sessionId = Some (js ''s3''), offset = Some (Fin 1), limit = None\<rparr>))
       = Some 7
   \<and> r_totalLines (fst (process_execute example_world 2000
         \<lparr>action = Log, sessionId = Some (js ''s3''), offset = Some (Fin 1), limit = None\<rparr>))
       = Some 3"
proof -
  let ?s2 = "example_session\<lparr>sid := js ''s2'', pid := Some 4322, backgrounded := True\<rparr>"
  let ?out = "js ''x'' @ [CR, LF] @ js ''y\<newline>z\<newline>''"
  let ?f3 = "example_finished (js ''s3'') ?out"
  have ne: "js ''s2'' \<noteq> []" "js ''s3'' \<noteq> []" by (simp_all add: js_def)
  have h2: "(getSession example_world (js ''s2'') = Some ?s2 \<and> backgrounded ?s2
              \<and> js ''a\<newline>b'' = aggregated ?s2)
            \<or> (getSession example_world (js ''s2'') = None
               \<and> getFinishedSession example_world (js ''s2'') = Some ?f3
               \<and> js ''a\<newline>b'' = aggregated ?f3)"
    by (simp add: example_lookups example_session_def)
  have h3: "(getSession example_world (js ''s3'') = Some ?s2 \<and> backgrounded ?s2
              \<and> ?out = aggregated ?s2)
            \<or> (getSession example_world (js ''s3'') = None
               \<and> getFinishedSession example_world (js ''s3'') = Some ?f3
               \<and> ?out = aggregated ?f3)"
    by (simp add: example_lookups example_finished_def)
  have l2: "length (js ''a\<newline>b'') = 3"
    "length (pop_trailing_empty (split_lf (replace_crlf (js ''a\<newline>b'')))) = 2"
    by (simp_all add: pop_trailing_empty_def js_def LF_def CR_def)
  have l3: "length ?out = 7"
    "length (pop_trailing_empty (split_lf (replace_crlf ?out))) = 3"
    by (simp_all add: pop_trailing_empty_def js_def LF_def CR_def)
  note t2 = log_totals [OF ne(1) h2, of 2000 None "Some (Fin 1)"]
  note t3 = log_totals [OF ne(2) h3, of 2000 "Some (Fin 1)" None]
  have a2: "map_option backgrounded (getSession example_world (js ''s2'')) = Some True"
    "map_option aggregated (getSession example_world (js ''s2'')) = Some (js ''a\<newline>b'')"
    by (simp_all add: example_lookups example_session_def)
  have a3: "map_option aggregated (getFinishedSession example_world (js ''s3'')) = Some ?out"
    by (simp add: example_lookups example_finished_def)
  from t2 [THEN conjunct1] t2 [THEN conjunct2, THEN conjunct1]
    t3 [THEN conjunct1] t3 [THEN conjunct2, THEN conjunct1]
    ne(1) a2 a3 example_lookups(3)
  show ?thesis
    unfolding l2 l3 by (intro conjI)
qed

text \<open>
  C7, amended: for every \<open>log\<close> action on a finished session or on a live session that has
  been backgrounded, with finite \<open>offset\<close> and \<open>limit\<close> floored and negative values counted
  as 0: when \<open>offset\<close> is absent and \<open>limit\<close> present the slice is the last \<open>limit\<close> lines
  of the aggregated output, otherwise it is the lines \<open>[offset, offset + limit)\<close> (all
  lines from \<open>offset\<close> on when \<open>limit\<close> is absent, \<open>offset\<close> defaulting to 0); the text
  returned is that slice, or a placeholder when the slice is empty; the result reports
  the total line count and the total character count, and the registry is unchanged.
\<close>

theorem log_window:
  assumes "i \<noteq> []"
    and "(getSession w i = Some s \<and> backgrounded s \<and> out = aggregated s
            \<and> ph = js ''(no output yet)'')
         \<or> (getSession w i = None \<and> getFinishedSession w i = Some f \<and> out = aggregated f
            \<and> ph = js ''(no output recorded)'')"
  shows "r_text (fst (process_execute w now
             \<lparr>action = Log, sessionId = Some i,
              offset = map_option Fin ofs, limit = map_option Fin lm\<rparr>))
           = (if join_lf (spec_log_window (log_lines out) ofs lm) \<noteq> []
              then join_lf (spec_log_window (log_lines out) ofs lm) else ph)
         \<and> r_totalLines (fst (process_execute w now
             \<lparr>action = Log, sessionId = Some i,
              offset = map_option Fin ofs, limit = map_option Fin lm\<rparr>))
           = Some (length (log_lines out))
         \<and> r_totalChars (fst (process_execute w now
             \<lparr>action = Log, sessionId = Some i,
              offset = map_option Fin ofs, limit = map_option Fin lm\<rparr>))
           = Some (length out)
         \<and> snd (process_execute w now
             \<lparr>action = Log, sessionId = Some i,
              offset = map_option Fin ofs, limit = map_option Fin lm\<rparr>) = w"
  using assms(2)
proof
  assume "getSession w i = Some s \<and> backgrounded s \<and> out = aggregated s
            \<and> ph = js ''(no output yet)''"
  then show ?thesis
    by (simp add: process_execute_log [OF assms(1)] log_action_live slice_window
        sliceLogLines_fields(2,3) plain_result_def)
next
  assume "getSession w i = None \<and> getFinishedSession w i = Some f \<and> out = aggregated f
            \<and> ph = js ''(no output recorded)''"
  then show ?thesis
    by (simp add: process_execute_log [OF assms(1)] log_action_finished slice_window
        sliceLogLines_fields(2,3) plain_result_def)
qed

theorem log_window_witness:
  "js ''s3'' \<noteq> []
   \<and> getSession example_world (js ''s3'') = None
   \<and> getFinishedSession example_world (js ''s3'')
       = Some (example_finished (js ''s3'') (js ''x'' @ [CR, LF] @ js ''y\<newline>z\<newline>''))
   \<and> r_text (fst (process_execute example_world 2000
         \<lparr>action = Log, sessionId = Some (js ''s3''), offset = None, limit = Some (Fin 2)\<rparr>))
       = js ''y\<newline>z''
   \<and> r_text (fst (process_execute example_world 2000
         \<lparr>action = Log, sessionId = Some (js ''s3''), offset = Some (Fin 1), limit = Some (Fin 1)\<rparr>))
       = js ''y''
   \<and> r_totalLines (fst (process_execute example_world 2000
         \<lparr>action = Log, sessionId = Some (js ''s3''), offset = None, limit = Some (Fin 2)\<rparr>))
       = Some 3"
proof -
  let ?out = "js ''x'' @ [CR, LF] @ js ''y\<newline>z\<newline>''"
  have ne: "js ''s3'' \<noteq> []" by (simp add: js_def)
  have h: "(getSession example_world (js ''s3'') = Some example_session
              \<and> backgrounded example_session \<and> ?out = aggregated example_session
              \<and> js ''(no output recorded)'' = js ''(no output yet)'')
           \<or> (getSession example_world (js ''s3'') = None
              \<and> getFinishedSession example_world (js ''s3'')
                  = Some (example_finished (js ''s3'') ?out)
              \<and> ?out = aggregated (example_finished (js ''s3'') ?out)
              \<and> js ''(no output recorded)'' = js ''(no output recorded)'')"
    by (simp add: example_lookups example_finished_def)
  have ll: "log_lines ?out = [js ''x'', js ''y'', js ''z'']"
    by (simp add: log_lines_def pop_trailing_empty_def js_def LF_def CR_def)
  have w1: "join_lf (spec_log_window [js ''x'', js ''y'', js ''z''] None (Some 2)) = js ''y\<newline>z''"
    by (simp add: spec_log_window_def line_count_def js_def LF_def)
  have w2: "join_lf (spec_log_window [js ''x'', js ''y'', js ''z''] (Some 1) (Some 1)) = js ''y''"
    by (simp add: spec_log_window_def line_count_def js_def LF_def)
  have n1: "js ''y\<newline>z'' \<noteq> []" "js ''y'' \<noteq> []" by (simp_all add: js_def)
  from log_window [OF ne h, of 2000 None "Some 2"] log_window [OF ne h, of 2000 "Some 1" "Some 1"]
    ne example_lookups(3,5) ll w1 w2 n1
  show ?thesis by simp
qed

text \<open>
  C7 as stated fails on an existing session that is live and not backgrounded: the action
  returns the failure text and no counts instead of the last line. It also fails for a
  negative offset: offset \<open>-2\<close> with limit 3 on three lines returns all three lines, not
  the lines of \<open>[-2, 1)\<close>.
\<close>

theorem log_window_counterexample:
  "getSession example_world (js ''s1'') = Some example_session
   \<and> aggregated example_session = js ''a\<newline>b''
   \<and> r_text (fst (process_execute example_world 2000
         \<lparr>action = Log, sessionId = Some (js ''s1''), offset = None, limit = Some (Fin 1)\<rparr>))
       = js ''Session s1 is not backgrounded.''
   \<and> r_status (fst (process_execute example_world 2000
         \<lparr>action = Log, sessionId = Some (js ''s1''), offset = None, limit = Some (Fin 1)\<rparr>))
       = Failed
   \<and> r_totalLines (fst (process_execute example_world 2000
         \<lparr>action = Log, sessionId = Some (js ''s1''), offset = None, limit = Some (Fin 1)\<rparr>))
       = None
   \<and> slice_str (sliceLogLines (js ''a\<newline>b\<newline>c'') (Some (Fin (- 2))) (Some (Fin 3)))
       = js ''a\<newline>b\<newline>c''"
proof -
  have ne: "js ''s1'' \<noteq> []" by (simp add: js_def)
  have nb: "\<not> backgrounded example_session" by (simp add: example_session_def)
  have sl: "slice_str (sliceLogLines (js ''a\<newline>b\<newline>c'') (Some (Fin (- 2))) (Some (Fin 3)))
       = js ''a\<newline>b\<newline>c''"
    by code_simp
  have "js ''Session '' @ js ''s1'' @ js '' is not backgrounded.'' = js ''Session s1 is not backgrounded.''"
    by (simp add: js_def)
  with nb sl show ?thesis
    by (simp add: process_execute_log [OF ne] log_action_def example_lookups
        not_backgrounded_def plain_result_def)
      (simp add: example_session_def)
qed

text \<open>
  C9, amended: for every finished session with aggregated output \<open>O\<close>, the \<open>log\<close> action
  with \<open>offset = 0\<close> and no limit bound (absent, or infinite) returns \<open>O\<close> line-normalised
  (CRLF pairs replaced by LF, lines rejoined in order, without the final line feed) when
  that text is non-empty, and the placeholder \<open>(no output recorded)\<close> when it is empty.
\<close>

theorem log_round_trip:
  assumes "i \<noteq> []" and "getSession w i = None" and "getFinishedSession w i = Some f"
    and "b = None \<or> b = Some PosInf"
  shows "r_text (fst (process_execute w now
             \<lparr>action = Log, sessionId = Some i, offset = Some (Fin 0), limit = b\<rparr>))
         = (if strip_final_lf (replace_crlf (aggregated f)) \<noteq> []
            then strip_final_lf (replace_crlf (aggregated f))
            else js ''(no output recorded)'')"
  using assms
  by (simp add: process_execute_log log_action_finished slice_all plain_result_def)

theorem log_round_trip_witness:
  "js ''s3'' \<noteq> []
   \<and> getSession example_world (js ''s3'') = None
   \<and> getFinishedSession example_world (js ''s3'')
       = Some (example_finished (js ''s3'') (js ''x'' @ [CR, LF] @ js ''y\<newline>z\<newline>''))
   \<and> r_text (fst (process_execute example_world 2000
         \<lparr>action = Log, sessionId = Some (js ''s3''), offset = Some (Fin 0), limit = None\<rparr>))
       = js ''x\<newline>y\<newline>z''"
proof -
  let ?out = "js ''x'' @ [CR, LF] @ js ''y\<newline>z\<newline>''"
  have ne: "js ''s3'' \<noteq> []" by (simp add: js_def)
  have b: "(None :: js_number option) = None \<or> (None :: js_number option) = Some PosInf" by simp
  have n: "strip_final_lf (replace_crlf (aggregated (example_finished (js ''s3'') ?out)))
           = js ''x\<newline>y\<newline>z''"
    by (simp add: example_finished_def strip_final_lf_def js_def LF_def CR_def)
  have n1: "js ''x\<newline>y\<newline>z'' \<noteq> []" by (simp add: js_def)
  from log_round_trip [OF ne example_lookups(3) example_lookups(5) b, of 2000] n n1 ne
    example_lookups(3,5)
  show ?thesis by simp
qed

text \<open>
  C9 as stated fails for a finished session whose output is a single line feed: the
  line-normalised output is the empty string, and the action returns the placeholder.
\<close>

theorem log_round_trip_counterexample:
  "getSession example_world (js ''s4'') = None
   \<and> map_option aggregated (getFinishedSession example_world (js ''s4'')) = Some [LF]
   \<and> strip_final_lf (replace_crlf [LF]) = []
   \<and> r_text (fst (process_execute example_world 2000
         \<lparr>action = Log, sessionId = Some (js ''s4''), offset = Some (Fin 0), limit = None\<rparr>))
       = js ''(no output recorded)''"
proof -
  have ne: "js ''s4'' \<noteq> []" by (simp add: js_def)
  have sl: "slice_str (sliceLogLines [LF] (Some (Fin 0)) None) = []"
    by (simp add: slice_all strip_final_lf_def)
  show ?thesis
    by (simp add: process_execute_log [OF ne]
        log_action_finished [OF example_lookups(4) example_lookups(6)]
        example_lookups example_finished_def sl plain_result_def strip_final_lf_def)
qed

subsection \<open>The executor\<close>

lemma bit_length_1: "bit_length 1 = 1"
  by (simp add: bit_length.simps [of 1] bit_length.simps [of 0])

lemma dec_length_1: "dec_length 1 = 1"
  by (simp add: dec_length.simps [of 1] dec_length.simps [of 0])

lemma to_double_1: "to_double 1 = Some 1"
  by (simp add: to_double_def floor_log2_def bit_length_1 ipow_def round_half_even_def Let_def)

lemma number_text_0: "number_text (Fin 0) = js ''0''"
  by (simp add: number_text.simps)

lemma number_text_1: "number_text (Fin 1) = js ''1''"
proof -
  have "candidate 1 1 1 = Some (1, 1)"
    by (simp add: candidate_def ipow_def to_double_1 Let_def)
  then have "shortest_digits 1 = (1, 1)"
    by (simp add: shortest_digits_def floor_log10_def dec_length_1)
  then show ?thesis
    by (simp add: number_text.simps pos_number_text_def to_double_1 show_digits.simps [of 1]
        js_def)
qed

lemma to_double_half: "to_double (1 / 2) = Some (1 / 2)"
  by (simp add: to_double_def floor_log2_def bit_length_1 ipow_def round_half_even_def Let_def)

lemma number_text_half: "number_text (Fin (1 / 2)) = js ''0.5''"
proof -
  have "candidate (1 / 2) 0 1 = Some (5, 0)"
    by (simp add: candidate_def ipow_def to_double_half Let_def)
  then have "shortest_digits (1 / 2) = (5, 0)"
    by (simp add: shortest_digits_def floor_log10_def dec_length_1)
  then show ?thesis
    by (simp add: number_text.simps pos_number_text_def to_double_half
        show_digits.simps [of 5] js_def)
qed

lemma to_double_e21: "to_double (10 ^ 21) = Some (10 ^ 21)"
proof -
  have "bit_length (10 ^ 21) = 70"
    by (simp add: bit_length.simps)
  then show ?thesis
    by (simp add: to_double_def floor_log2_def ipow_def round_half_even_def Let_def)
qed

lemma number_text_e21: "number_text (Fin (10 ^ 21)) = js ''1e+21''"
proof -
  have "dec_length (10 ^ 21) = 22"
    by (simp add: dec_length.simps)
  moreover have "candidate (10 ^ 21) 22 1 = Some (1, 22)"
    using to_double_e21 by (simp add: candidate_def ipow_def Let_def)
  ultimately have "shortest_digits (10 ^ 21) = (1, 22)"
    by (simp add: shortest_digits_def floor_log10_def)
  then show ?thesis
    using to_double_e21
    by (simp add: number_text.simps pos_number_text_def show_digits.simps [of 1]
        show_digits.simps [of 21] show_digits.simps [of 2] js_def)
qed

lemma number_text_special:
  "number_text NaN = js ''NaN''" "number_text PosInf = js ''Infinity''"
  "number_text NegInf = js ''-Infinity''"
  by (simp_all add: number_text.simps)

lemma show_int_0: "show_int 0 = js ''0''"
  by (simp add: show_int_def number_text_0)

lemma show_int_1: "show_int 1 = js ''1''"
  by (simp add: show_int_def number_text_1)

lemma trim_boom: "trim (first_line (js ''boom'')) = js ''boom''"
  by code_simp

lemma plain_start:
  "cmd \<noteq> [] \<Longrightarrow>
   bash_start example_defaults (example_host\<lparr>spawn_pid := child_pid\<rparr>) empty_world
     (plain_params cmd t)
   = Inr (plain_state cmd t child_pid)"
  by (simp add: bash_start_def example_defaults_def example_host_def empty_world_def
      plain_params_def choose_transport_def yieldWindow_def
      defaultBackgroundMs_def clampNumber_def addSession_def
      new_session_def new_exec_def Let_def plain_state_def)
     (cases child_pid; simp add: js_def)

lemma example_start:
  "cmd \<noteq> [] \<Longrightarrow>
   bash_start example_defaults example_host empty_world (example_params cmd (Some Pty))
   = Inr (fallback_state cmd)"
  by (simp add: bash_start_def example_defaults_def example_host_def empty_world_def
      example_params_def choose_transport_def formatPtyError_def yieldWindow_def
      defaultBackgroundMs_def defaultTimeoutSec_def clampNumber_def addSession_def
      new_session_def new_exec_def Let_def trim_boom fallback_state_def)
     (simp add: js_def)

text \<open>
  C4, amended: a call of the bash tool whose \<open>command\<close> is the empty string throws the
  error \<open>Provide a command to start.\<close> before anything else happens: the promise of the
  call is rejected, no session is created and no failure result is returned.
\<close>

theorem empty_command_throws:
  "p_command p = [] \<Longrightarrow>
   bash_start d h w p = Inl (ErrorObj (js ''Provide a command to start.''))"
  by (simp add: bash_start_def)

theorem empty_command_throws_witness:
  "p_command (example_params [] None) = []
   \<and> bash_start example_defaults example_host empty_world (example_params [] None)
       = Inl (ErrorObj (js ''Provide a command to start.''))"
proof -
  have h: "p_command (example_params [] None) = []" by (simp add: example_params_def)
  from empty_command_throws [OF h] h show ?thesis by simp
qed

theorem empty_command_counterexample:
  "isl (bash_start example_defaults example_host empty_world (example_params [] (Some Pipe)))
   \<and> projl (bash_start example_defaults example_host empty_world (example_params [] (Some Pipe)))
       = ErrorObj (js ''Provide a command to start.'')"
  by (simp add: bash_start_def example_params_def)

lemma exit_status_timers [simp]:
  "exit_status (x\<lparr>yieldTimer := a, timeoutTimer := b\<rparr>) code sig = exit_status x code sig"
  "isSuccess (x\<lparr>yieldTimer := a, timeoutTimer := b\<rparr>) code sig = isSuccess x code sig"
  "failure_reason (x\<lparr>yieldTimer := a, timeoutTimer := b\<rparr>) code sig = failure_reason x code sig"
  by (simp_all add: exit_status_def isSuccess_def failure_reason_def)

lemma markExited_heap:
  "heap w i = Some s \<Longrightarrow>
   heap (markExited i code sig st now w) i
     = Some (s\<lparr>exitCode := code, exitSignal := sig, exited := True\<rparr>)"
  by (simp add: markExited_def Let_def split: option.splits)

lemma markExited_finished_status:
  "heap w i = Some s \<Longrightarrow> \<not> exited s \<or> finished w i \<noteq> None \<Longrightarrow>
   map_option status (finished (markExited i code sig st now w) i) = Some st"
  by (auto simp: markExited_def Let_def finished_entry_def split: option.splits)

lemma handleExit_world:
  "snd (handleExit code sig now (x, w))
   = markExited (sessionId_x x) code sig (exit_status x code sig) now w"
  by (simp add: handleExit_def Let_def split: option.splits)

text \<open>
  C5: when the exit handler runs for a session that has not exited before (or whose
  finished entry is still stored), the status recorded in the registry is the one the
  handler computes, and that status is \<open>completed\<close> if and only if the exit code is 0, the
  exit signal is null, the external abort signal has not fired and the timeout has not
  fired; in every other case it is \<open>failed\<close>.
\<close>

theorem exit_status_recorded:
  assumes "heap w (sessionId_x x) = Some s"
    and "\<not> exited s \<or> finished w (sessionId_x x) \<noteq> None"
  shows "map_option status (finished (snd (handleExit code sig now (x, w))) (sessionId_x x))
           = Some (exit_status x code sig)
         \<and> (exit_status x code sig = Completed
              \<longleftrightarrow> code = Some 0 \<and> sig = None \<and> \<not> aborted x \<and> \<not> timedOut x)
         \<and> (exit_status x code sig \<noteq> Completed \<longrightarrow> exit_status x code sig = Failed)"
  using markExited_finished_status [OF assms]
  by (simp add: handleExit_world) (simp add: exit_status_def isSuccess_def)

theorem exit_status_recorded_witness:
  "heap (snd (fallback_state (js ''true''))) (sessionId_x (fst (fallback_state (js ''true''))))
     \<noteq> None
   \<and> map_option exited
       (heap (snd (fallback_state (js ''true''))) (sessionId_x (fst (fallback_state (js ''true'')))))
     = Some False
   \<and> map_option status
       (finished (snd (handleExit (Some 0) None 1005 (fallback_state (js ''true'')))) (js ''u1''))
     = Some Completed
   \<and> map_option status
       (finished (snd (handleExit (Some 0) (Some (SigNum 0)) 1005 (fallback_state (js ''true''))))
          (js ''u1''))
     = Some Failed"
proof -
  let ?x = "fst (fallback_state (js ''true''))"
  let ?w = "snd (fallback_state (js ''true''))"
  obtain s where s: "heap ?w (sessionId_x ?x) = Some s" "\<not> exited s"
    by (simp add: fallback_state_def)
  then have h2: "\<not> exited s \<or> finished ?w (sessionId_x ?x) \<noteq> None" by simp
  have sid: "sessionId_x ?x = js ''u1''" by (simp add: fallback_state_def)
  have e1: "exit_status ?x (Some 0) None = Completed"
    by (simp add: exit_status_def isSuccess_def fallback_state_def)
  have e2: "exit_status ?x (Some 0) (Some (SigNum 0)) = Failed"
    by (simp add: exit_status_def isSuccess_def fallback_state_def)
  from exit_status_recorded [OF s(1) h2, of "Some 0" None 1005]
    exit_status_recorded [OF s(1) h2, of "Some 0" "Some (SigNum 0)" 1005] s sid e1 e2
  show ?thesis by simp
qed

lemma handleExit_failure:
  assumes "heap w (sessionId_x x) = Some s" and "\<not> backgrounded s" and "\<not> yielded x"
    and "\<not> settled x" and "exit_status x code sig = Failed"
  shows "settlements (fst (handleExit code sig now (x, w)))
           = settlements x
             @ [Rejected (ErrorObj
                  (if trim (aggregated s) \<noteq> []
                   then trim (aggregated s) @ [LF, LF] @ failure_reason x code sig
                   else failure_reason x code sig))]
         \<and> (timedOut x \<longrightarrow>
              failure_reason x code sig
              = js ''Command timed out after '' @ number_text (effectiveTimeout x) @ js '' seconds'')
         \<and> (\<not> timedOut x \<and> died_by_signal sig \<longrightarrow>
              failure_reason x code sig
              = js ''Command aborted by signal ''
                @ (case sig of Some g \<Rightarrow> show_signal g | None \<Rightarrow> []))
         \<and> (\<not> timedOut x \<and> \<not> died_by_signal sig \<and> code = None \<longrightarrow>
              failure_reason x code sig = js ''Command aborted before exit code was captured'')
         \<and> (\<not> timedOut x \<and> \<not> died_by_signal sig \<and> code \<noteq> None \<longrightarrow>
              failure_reason x code sig
              = js ''Command exited with code ''
                @ (case code of Some c \<Rightarrow> show_int c | None \<Rightarrow> []))"
proof -
  have ns: "\<not> isSuccess x code sig"
    using assms(5) by (simp add: exit_status_def split: if_splits)
  have "settlements (fst (handleExit code sig now (x, w)))
           = settlements x
             @ [Rejected (ErrorObj
                  (if trim (aggregated s) \<noteq> []
                   then trim (aggregated s) @ [LF, LF] @ failure_reason x code sig
                   else failure_reason x code sig))]"
    using assms(2,3,4) ns
    by (simp add: handleExit_def Let_def markExited_heap [OF assms(1)] settle_def)
  moreover have "timedOut x \<longrightarrow>
              failure_reason x code sig
              = js ''Command timed out after '' @ number_text (effectiveTimeout x) @ js '' seconds''"
    by (simp add: failure_reason_def)
  moreover have "\<not> timedOut x \<and> died_by_signal sig \<longrightarrow>
              failure_reason x code sig
              = js ''Command aborted by signal ''
                @ (case sig of Some g \<Rightarrow> show_signal g | None \<Rightarrow> [])"
    by (auto simp: failure_reason_def died_by_signal_def split: option.splits)
  moreover have "\<not> timedOut x \<and> \<not> died_by_signal sig \<and> code = None \<longrightarrow>
              failure_reason x code sig = js ''Command aborted before exit code was captured''"
    by (auto simp: failure_reason_def died_by_signal_def split: option.splits)
  moreover have "\<not> timedOut x \<and> \<not> died_by_signal sig \<and> code \<noteq> None \<longrightarrow>
              failure_reason x code sig
              = js ''Command exited with code ''
                @ (case code of Some c \<Rightarrow> show_int c | None \<Rightarrow> [])"
    by (auto simp: failure_reason_def died_by_signal_def split: option.splits)
  ultimately show ?thesis by (simp only: simp_thms)
qed

lemma js_append: "js (a @ b) = js a @ js b"
  by (simp add: js_def)

lemma trim_Nil: "trim [] = []"
  by (simp add: trim_def trimStart_def trimEnd_def)

lemma handleExit_success:
  assumes "heap w (sessionId_x x) = Some s" and "\<not> backgrounded s" and "\<not> yielded x"
    and "\<not> settled x" and "isSuccess x code sig"
  shows "settlements (fst (handleExit code sig now (x, w)))
           = settlements x
             @ [Resolved
                  (warning_prefix x
                   @ (if trim (aggregated s) \<noteq> [] then trim (aggregated s) else js ''(no output)''))
                  (CompletedDetails 0 (now - startedAt_x x) (trim (aggregated s)))]"
  using assms
  by (simp add: handleExit_def Let_def markExited_heap [OF assms(1)] settle_def
      warning_prefix_def isSuccess_def)

lemma warning_shape:
  "prefix (js ''Warning: '') (js ''Warning: node-pty failed to load'' @ r)"
  "prefix (js ''Warning: '') (js ''Warning: node-pty failed to start'' @ r)"
  "suffix (js ''falling back to pipe mode.'') (a @ b @ c @ js ''falling back to pipe mode.'')"
proof -
  show "prefix (js ''Warning: '') (js ''Warning: node-pty failed to load'' @ r)"
    by (simp add: js_def)
  show "prefix (js ''Warning: '') (js ''Warning: node-pty failed to start'' @ r)"
    by (simp add: js_def)
  show "suffix (js ''falling back to pipe mode.'') (a @ b @ c @ js ''falling back to pipe mode.'')"
    by (rule suffixI [of _ "a @ b @ c"]) simp
qed

lemma choose_transport_fallback:
  assumes "p_stdinMode p = Some Pty"
    and "pty_backend h = LoadFails e \<or> pty_backend h = SpawnFails e"
  shows "\<exists>t. choose_transport h p = (Some t, Pipe, Some (spawn_pid h), None)
             \<and> prefix (js ''Warning: '') t \<and> suffix (js ''falling back to pipe mode.'') t"
  using assms(2)
proof
  assume "pty_backend h = LoadFails e"
  with assms(1) show ?thesis
    by (simp add: choose_transport_def warning_shape)
next
  assume "pty_backend h = SpawnFails e"
  with assms(1) show ?thesis
    by (simp add: choose_transport_def warning_shape)
qed

text \<open>
  C8: with \<open>stdinMode = pty\<close> and a PTY backend that fails to load, the call records the
  warning, which names the fallback, and runs the command in pipe mode; but when that
  command then exits with code 1, the call is rejected with \<open>Command exited with code 1\<close>
  alone: the warning is not part of what the caller gets. (The warning and the pipe mode
  hold for every such call, \<open>pty_fallback_start\<close>, and a successful run does prepend the
  warning to the output, \<open>handleExit_success\<close>.)
\<close>

theorem pty_fallback_failure_loses_warning:
  "bash_start example_defaults example_host empty_world (example_params (js ''exit 1'') (Some Pty))
     = Inr (fallback_state (js ''exit 1''))
   \<and> warning (fst (fallback_state (js ''exit 1'')))
     = Some (js ''Warning: node-pty failed to load (boom); falling back to pipe mode.'')
   \<and> map_option stdinMode (heap (snd (fallback_state (js ''exit 1''))) (js ''u1'')) = Some Pipe
   \<and> settlements (fst (run (fallback_state (js ''exit 1'')) [ChildExit (Some 1) None 1005]))
     = [Rejected (ErrorObj (js ''Command exited with code 1''))]"
proof -
  have ne: "js ''exit 1'' \<noteq> []" by (simp add: js_def)
  have m: "js ''Command exited with code '' @ js ''1'' = js ''Command exited with code 1''"
    by (simp add: js_def)
  have "settlements (fst (run (fallback_state (js ''exit 1'')) [ChildExit (Some 1) None 1005]))
     = [Rejected (ErrorObj (js ''Command exited with code 1''))]"
    by (simp add: run_def fallback_state_def handleExit_def markExited_def Let_def
        exit_status_def isSuccess_def failure_reason_def settle_def trim_Nil show_int_1 m
        finished_entry_def)
  then show ?thesis
    by (simp add: example_start [OF ne]) (simp add: fallback_state_def)
qed

lemma exec_invI:
  assumes "heap w (sessionId_x x) = Some s" and "backgrounded s \<longrightarrow> yielded x"
    and "yielded x \<longrightarrow> settled x" and "\<not> yieldTimer x \<longrightarrow> settled x"
    and "has_child x \<and> \<not> exit_listener x \<longrightarrow> settled x"
    and "has_child x \<and> \<not> error_listener x \<longrightarrow> settled x"
    and "settled x \<longrightarrow> length (settlements x) = 1"
    and "\<not> settled x \<longrightarrow> settlements x = []"
  shows "exec_inv (x, w)"
  using assms by (simp add: exec_inv_def)

lemma exec_invD:
  assumes "exec_inv (x, w)"
  obtains s where "heap w (sessionId_x x) = Some s" and "backgrounded s \<longrightarrow> yielded x"
    and "yielded x \<longrightarrow> settled x" and "\<not> yieldTimer x \<longrightarrow> settled x"
    and "has_child x \<and> \<not> exit_listener x \<longrightarrow> settled x"
    and "has_child x \<and> \<not> error_listener x \<longrightarrow> settled x"
    and "settled x \<longrightarrow> length (settlements x) = 1"
    and "\<not> settled x \<longrightarrow> settlements x = []"
  using assms by (auto simp: exec_inv_def split: option.splits)

lemma killSession_heap: "heap (killSession s w) = heap w"
  by (simp add: killSession_def Let_def)

lemma onAbort_eq: "fst (onAbort (x, w)) = x" "heap (snd (onAbort (x, w))) = heap w"
  by (simp_all add: onAbort_def killSession_heap split: option.splits)

lemma markBackgrounded_heap:
  "heap w i = Some s \<Longrightarrow> heap (markBackgrounded i w) i = Some (s\<lparr>backgrounded := True\<rparr>)"
  by (simp add: markBackgrounded_def)

lemma appendOutput_heap:
  assumes "heap w i = Some s"
  obtains s' where "heap (appendOutput i strm c w) i = Some s'"
    and "backgrounded s' = backgrounded s" and "exited s' = exited s"
    and "totalOutputChars s' = (if exited s then totalOutputChars s
                                else totalOutputChars s + length c)"
proof (cases "exited s")
  case True
  with assms show ?thesis by (intro that [of s]) (simp_all add: appendOutput_def)
next
  case False
  show ?thesis
  proof (cases strm)
    case Stdout
    with assms False show ?thesis
      by (intro that [of "the (heap (appendOutput i strm c w) i)"])
         (simp_all add: appendOutput_def Let_def)
  next
    case Stderr
    with assms False show ?thesis
      by (intro that [of "the (heap (appendOutput i strm c w) i)"])
         (simp_all add: appendOutput_def Let_def)
  qed
qed

lemma emitUpdate_eq:
  "\<exists>u. fst (emitUpdate (x, w)) = x\<lparr>updates := u\<rparr>" "snd (emitUpdate (x, w)) = w"
  by (auto simp: emitUpdate_def split: option.splits intro: exI [of _ "updates x"])

lemma data_rel_refl:
  "heap w (sessionId_x x) = Some s \<Longrightarrow> data_rel (x, w) (x, w)"
  by (auto simp: data_rel_def intro: exI [of _ "updates x"])

lemma data_rel_step:
  assumes "data_rel st st'"
  shows "data_rel st
           (emitUpdate (fst st', appendOutput (sessionId_x (fst st')) strm c (snd st')))"
proof -
  from assms obtain u s s' where
    x: "fst st' = (fst st)\<lparr>updates := u\<rparr>"
    and h: "heap (snd st) (sessionId_x (fst st)) = Some s"
      "heap (snd st') (sessionId_x (fst st)) = Some s'"
      "backgrounded s' = backgrounded s" "exited s' = exited s"
    by (auto simp: data_rel_def)
  have sid: "sessionId_x (fst st') = sessionId_x (fst st)" by (simp add: x)
  obtain s'' where a: "heap (appendOutput (sessionId_x (fst st)) strm c (snd st'))
                          (sessionId_x (fst st)) = Some s''"
    "backgrounded s'' = backgrounded s'" "exited s'' = exited s'"
    using appendOutput_heap [OF h(2)] by metis
  obtain u' where e: "fst (emitUpdate (fst st', appendOutput (sessionId_x (fst st')) strm c (snd st')))
                      = (fst st')\<lparr>updates := u'\<rparr>"
    using emitUpdate_eq(1) by metis
  have "fst (emitUpdate (fst st', appendOutput (sessionId_x (fst st')) strm c (snd st')))
          = (fst st)\<lparr>updates := u'\<rparr>"
    unfolding e by (simp add: x)
  with a h sid show ?thesis
    by (auto simp: data_rel_def emitUpdate_eq(2))
qed

lemma foldl_data_rel:
  "data_rel st st' \<Longrightarrow>
   data_rel st
     (foldl (\<lambda>a chunk.
               emitUpdate (fst a, appendOutput (sessionId_x (fst a)) strm chunk (snd a)))
        st' cs)"
proof (induction cs arbitrary: st')
  case Nil
  then show ?case by simp
next
  case (Cons c cs)
  from Cons.prems have "data_rel st
      (emitUpdate (fst st', appendOutput (sessionId_x (fst st')) strm c (snd st')))"
    by (rule data_rel_step)
  then show ?case using Cons.IH by simp
qed

lemma on_data_rel:
  "heap w (sessionId_x x) = Some s \<Longrightarrow> data_rel (x, w) (on_data strm str (x, w))"
  unfolding on_data_def by (rule foldl_data_rel) (rule data_rel_refl)

lemma data_rel_inv:
  assumes "data_rel (x, w) st'" and "exec_inv (x, w)"
  shows "exec_inv st'"
    and "settled (fst st') = settled x" and "settlements (fst st') = settlements x"
    and "has_child (fst st') = has_child x" and "has_pty (fst st') = has_pty x"
    and "sessionId_x (fst st') = sessionId_x x"
proof -
  from assms(1) obtain u s s' where
    x: "fst st' = x\<lparr>updates := u\<rparr>"
    and h: "heap w (sessionId_x x) = Some s" "heap (snd st') (sessionId_x x) = Some s'"
      "backgrounded s' = backgrounded s"
    by (auto simp: data_rel_def)
  show "settled (fst st') = settled x" "settlements (fst st') = settlements x"
    "has_child (fst st') = has_child x" "has_pty (fst st') = has_pty x"
    "sessionId_x (fst st') = sessionId_x x"
    by (simp_all add: x)
  have "exec_inv (fst st', snd st')"
    using assms(2) h
    by (elim exec_invD, intro exec_invI [of _ _ s']) (simp_all add: x)
  then show "exec_inv st'" by simp
qed

lemma settle_settled: "settled (settle r x)"
  by (simp add: settle_def)

lemma settle_fields:
  "yielded (settle r x) = yielded x" "yieldTimer (settle r x) = yieldTimer x"
  "has_child (settle r x) = has_child x" "has_pty (settle r x) = has_pty x"
  "exit_listener (settle r x) = exit_listener x" "error_listener (settle r x) = error_listener x"
  "sessionId_x (settle r x) = sessionId_x x"
  by (simp_all add: settle_def)

lemma settle_settlements:
  "settled x \<Longrightarrow> settlements (settle r x) = settlements x"
  "\<not> settled x \<Longrightarrow> settlements (settle r x) = settlements x @ [r]"
  by (simp_all add: settle_def)

lemma settle_inv:
  assumes "heap w (sessionId_x x) = Some s" and "backgrounded s \<longrightarrow> yielded x"
    and "settled x \<longrightarrow> length (settlements x) = 1" and "\<not> settled x \<longrightarrow> settlements x = []"
  shows "exec_inv (settle r x, w)"
proof (rule exec_invI [of _ _ s])
  show "heap w (sessionId_x (settle r x)) = Some s" using assms(1) by (simp add: settle_fields)
  show "backgrounded s \<longrightarrow> yielded (settle r x)" using assms(2) by (simp add: settle_fields)
  show "settled (settle r x) \<longrightarrow> length (settlements (settle r x)) = 1"
    using assms(3,4) by (cases "settled x") (simp_all add: settle_settlements)
qed (simp_all add: settle_settled)

lemma yield_now_props:
  assumes "heap w (sessionId_x x) = Some s" and "backgrounded s \<longrightarrow> yielded x"
    and "yielded x \<longrightarrow> settled x"
    and "has_child x \<and> \<not> exit_listener x \<longrightarrow> settled x"
    and "has_child x \<and> \<not> error_listener x \<longrightarrow> settled x"
    and "settled x \<longrightarrow> length (settlements x) = 1"
    and "\<not> settled x \<longrightarrow> settlements x = []"
  shows "exec_inv (yield_now (x\<lparr>yieldTimer := False\<rparr>, w))"
    and "settled (fst (yield_now (x\<lparr>yieldTimer := False\<rparr>, w)))"
    and "settled x \<Longrightarrow> settlements (fst (yield_now (x\<lparr>yieldTimer := False\<rparr>, w))) = settlements x"
    and "has_child (fst (yield_now (x\<lparr>yieldTimer := False\<rparr>, w))) = has_child x"
    and "has_pty (fst (yield_now (x\<lparr>yieldTimer := False\<rparr>, w))) = has_pty x"
    and "sessionId_x (fst (yield_now (x\<lparr>yieldTimer := False\<rparr>, w))) = sessionId_x x"
proof -
  note s = assms(1) and i = assms(2-7)
  let ?st = "yield_now (x\<lparr>yieldTimer := False\<rparr>, w)"
  have "exec_inv ?st \<and> settled (fst ?st)
        \<and> (settled x \<longrightarrow> settlements (fst ?st) = settlements x)
        \<and> has_child (fst ?st) = has_child x \<and> has_pty (fst ?st) = has_pty x
        \<and> sessionId_x (fst ?st) = sessionId_x x" (is ?goal)
  proof (cases "settled x")
    case True
    then have eq: "?st = (x\<lparr>yieldTimer := False\<rparr>, w)" by (simp add: yield_now_def)
    have "exec_inv (x\<lparr>yieldTimer := False\<rparr>, w)"
      using s i True by (intro exec_invI [of _ _ s]) simp_all
    with True show ?goal by (simp add: eq)
  next
    case False
    let ?x = "x\<lparr>yieldTimer := False, yielded := True\<rparr>"
    let ?r = "Resolved
                   (warning_prefix ?x
                    @ js ''Command still running (session '' @ sessionId_x ?x @ js '', pid ''
                    @ (case pid (s\<lparr>backgrounded := True\<rparr>) of Some p \<Rightarrow> show_int (int p) | None \<Rightarrow> js ''n/a'')
                    @ js ''). ''
                    @ js ''Use process (list/poll/log/write/kill/clear/remove) for follow-up.'')
                   (RunningDetails (sessionId_x ?x) (pid (s\<lparr>backgrounded := True\<rparr>))
                      (startedAt_x ?x) (tail (s\<lparr>backgrounded := True\<rparr>)))"
    have h: "heap (markBackgrounded (sessionId_x x) w) (sessionId_x x)
               = Some (s\<lparr>backgrounded := True\<rparr>)"
      using s by (rule markBackgrounded_heap)
    have eq: "?st = (settle ?r ?x, markBackgrounded (sessionId_x x) w)"
      using False h by (simp add: yield_now_def resolveRunning_def)
    have "exec_inv (settle ?r ?x, markBackgrounded (sessionId_x x) w)"
      using h i False by (intro settle_inv [of _ _ "s\<lparr>backgrounded := True\<rparr>"]) simp_all
    with False show ?goal
      by (simp add: eq settle_settled settle_fields)
  qed
  then show "exec_inv ?st" "settled (fst ?st)"
    "settled x \<Longrightarrow> settlements (fst ?st) = settlements x"
    "has_child (fst ?st) = has_child x" "has_pty (fst ?st) = has_pty x"
    "sessionId_x (fst ?st) = sessionId_x x"
    by simp_all
qed

lemma handleExit_eq:
  assumes "heap w (sessionId_x x) = Some s"
  shows "handleExit code sig now (x, w) =
     (if yielded x \<or> backgrounded s
      then x\<lparr>yieldTimer := False, timeoutTimer := False\<rparr>
      else settle (exit_settlement x s code sig now)
             (x\<lparr>yieldTimer := False, timeoutTimer := False\<rparr>),
      markExited (sessionId_x x) code sig (exit_status x code sig) now w)"
  by (simp add: handleExit_def Let_def markExited_heap [OF assms] exit_settlement_def
      warning_prefix_def)

lemma handleExit_props:
  assumes "heap w (sessionId_x x) = Some s" and "backgrounded s \<longrightarrow> yielded x"
    and "yielded x \<longrightarrow> settled x"
    and "settled x \<longrightarrow> length (settlements x) = 1" and "\<not> settled x \<longrightarrow> settlements x = []"
  shows "exec_inv (handleExit code sig now (x, w))"
    and "settled (fst (handleExit code sig now (x, w)))"
    and "settled x \<Longrightarrow> settlements (fst (handleExit code sig now (x, w))) = settlements x"
    and "has_child (fst (handleExit code sig now (x, w))) = has_child x"
    and "has_pty (fst (handleExit code sig now (x, w))) = has_pty x"
    and "sessionId_x (fst (handleExit code sig now (x, w))) = sessionId_x x"
proof -
  let ?x = "x\<lparr>yieldTimer := False, timeoutTimer := False\<rparr>"
  let ?w = "markExited (sessionId_x x) code sig (exit_status x code sig) now w"
  let ?s = "s\<lparr>exitCode := code, exitSignal := sig, exited := True\<rparr>"
  let ?r = "exit_settlement x s code sig now"
  have h: "heap ?w (sessionId_x ?x) = Some ?s"
    using markExited_heap [OF assms(1)] by simp
  have inv_settle: "exec_inv (settle ?r ?x, ?w)"
    using h assms(2,4,5) by (intro settle_inv [of _ _ ?s]) simp_all
  have inv_plain: "settled x \<Longrightarrow> exec_inv (?x, ?w)"
    using h assms(2,4,5) by (intro exec_invI [of _ _ ?s]) simp_all
  have "exec_inv (handleExit code sig now (x, w))
        \<and> settled (fst (handleExit code sig now (x, w)))
        \<and> (settled x \<longrightarrow> settlements (fst (handleExit code sig now (x, w))) = settlements x)
        \<and> has_child (fst (handleExit code sig now (x, w))) = has_child x
        \<and> has_pty (fst (handleExit code sig now (x, w))) = has_pty x
        \<and> sessionId_x (fst (handleExit code sig now (x, w))) = sessionId_x x"
  proof (cases "yielded x \<or> backgrounded s")
    case True
    with assms(2,3) have "settled x" by blast
    with True inv_plain show ?thesis
      by (simp add: handleExit_eq [OF assms(1)])
  next
    case False
    with inv_settle show ?thesis
      by (simp add: handleExit_eq [OF assms(1)] settle_settled settle_fields settle_settlements)
  qed
  then show "exec_inv (handleExit code sig now (x, w))"
    "settled (fst (handleExit code sig now (x, w)))"
    "settled x \<Longrightarrow> settlements (fst (handleExit code sig now (x, w))) = settlements x"
    "has_child (fst (handleExit code sig now (x, w))) = has_child x"
    "has_pty (fst (handleExit code sig now (x, w))) = has_pty x"
    "sessionId_x (fst (handleExit code sig now (x, w))) = sessionId_x x"
    by simp_all
qed

lemma on_child_error_props:
  assumes "heap w (sessionId_x x) = Some s" and "backgrounded s \<longrightarrow> yielded x"
    and "settled x \<longrightarrow> length (settlements x) = 1" and "\<not> settled x \<longrightarrow> settlements x = []"
  shows "exec_inv (on_child_error err now (x, w))"
    and "settled (fst (on_child_error err now (x, w)))"
    and "settled x \<Longrightarrow> settlements (fst (on_child_error err now (x, w))) = settlements x"
    and "has_child (fst (on_child_error err now (x, w))) = has_child x"
    and "has_pty (fst (on_child_error err now (x, w))) = has_pty x"
    and "sessionId_x (fst (on_child_error err now (x, w))) = sessionId_x x"
proof -
  let ?x = "x\<lparr>yieldTimer := False, timeoutTimer := False\<rparr>"
  let ?w = "markExited (sessionId_x x) None None Failed now w"
  let ?s = "s\<lparr>exitCode := None, exitSignal := None, exited := True\<rparr>"
  have h: "heap ?w (sessionId_x ?x) = Some ?s"
    using markExited_heap [OF assms(1)] by simp
  have eq: "on_child_error err now (x, w) = (settle (Rejected err) ?x, ?w)"
    by (simp add: on_child_error_def)
  show "exec_inv (on_child_error err now (x, w))"
    unfolding eq using h assms(2,3,4) by (intro settle_inv [of _ _ ?s]) simp_all
  show "settled (fst (on_child_error err now (x, w)))"
    by (simp add: eq settle_settled)
  show "settled x \<Longrightarrow> settlements (fst (on_child_error err now (x, w))) = settlements x"
    by (simp add: eq settle_settlements)
  show "has_child (fst (on_child_error err now (x, w))) = has_child x"
    "has_pty (fst (on_child_error err now (x, w))) = has_pty x"
    "sessionId_x (fst (on_child_error err now (x, w))) = sessionId_x x"
    by (simp_all add: eq settle_fields)
qed

lemma onAbort_props:
  assumes "exec_inv (x, w)"
    and "settled y = settled x" and "yielded y = yielded x" and "yieldTimer y = yieldTimer x"
    and "has_child y = has_child x" and "exit_listener y = exit_listener x"
    and "error_listener y = error_listener x" and "settlements y = settlements x"
    and "sessionId_x y = sessionId_x x"
  shows "exec_inv (onAbort (y, w))" and "fst (onAbort (y, w)) = y"
proof -
  from assms(1) obtain s where s: "heap w (sessionId_x x) = Some s"
    and i: "backgrounded s \<longrightarrow> yielded x" "yielded x \<longrightarrow> settled x"
      "\<not> yieldTimer x \<longrightarrow> settled x"
      "has_child x \<and> \<not> exit_listener x \<longrightarrow> settled x"
      "has_child x \<and> \<not> error_listener x \<longrightarrow> settled x"
      "settled x \<longrightarrow> length (settlements x) = 1" "\<not> settled x \<longrightarrow> settlements x = []"
    by (rule exec_invD)
  show y: "fst (onAbort (y, w)) = y" by (rule onAbort_eq)
  have "heap (snd (onAbort (y, w))) (sessionId_x y) = Some s"
    using s assms(9) by (simp add: onAbort_eq)
  then have "exec_inv (y, snd (onAbort (y, w)))"
    using i assms(2-8) by (intro exec_invI [of _ _ s]) simp_all
  then show "exec_inv (onAbort (y, w))"
    using y by (metis prod.collapse)
qed

lemma step_props:
  assumes "exec_inv st"
  shows "exec_inv (step st e)
         \<and> (settled (fst st) \<longrightarrow>
              settled (fst (step st e)) \<and> settlements (fst (step st e)) = settlements (fst st))
         \<and> (settling (fst st) e \<longrightarrow> settled (fst (step st e)))
         \<and> has_child (fst (step st e)) = has_child (fst st)
         \<and> has_pty (fst (step st e)) = has_pty (fst st)
         \<and> sessionId_x (fst (step st e)) = sessionId_x (fst st)"
proof -
  obtain x w where st: "st = (x, w)" by (cases st)
  from assms st have inv: "exec_inv (x, w)" by simp
  from inv obtain s where s: "heap w (sessionId_x x) = Some s"
    and i: "backgrounded s \<longrightarrow> yielded x" "yielded x \<longrightarrow> settled x"
      "\<not> yieldTimer x \<longrightarrow> settled x"
      "has_child x \<and> \<not> exit_listener x \<longrightarrow> settled x"
      "has_child x \<and> \<not> error_listener x \<longrightarrow> settled x"
      "settled x \<longrightarrow> length (settlements x) = 1" "\<not> settled x \<longrightarrow> settlements x = []"
    by (rule exec_invD)
  show ?thesis
  proof (cases e)
    case YieldTimerFires
    show ?thesis
    proof (cases "yieldTimer x")
      case True
      from yield_now_props [OF s i(1,2,4,5,6,7)] True show ?thesis
        by (simp add: st YieldTimerFires)
    next
      case False
      with inv i(3) show ?thesis by (simp add: st YieldTimerFires)
    qed
  next
    case TimeoutTimerFires
    have "exec_inv (onAbort (x\<lparr>timeoutTimer := False, timedOut := True\<rparr>, w))"
      "fst (onAbort (x\<lparr>timeoutTimer := False, timedOut := True\<rparr>, w))
         = x\<lparr>timeoutTimer := False, timedOut := True\<rparr>"
      by (rule onAbort_props [OF inv]; simp)+
    with inv show ?thesis
      by (simp add: st TimeoutTimerFires settling_def)
  next
    case AbortFires
    have "exec_inv (onAbort (x\<lparr>abort_listener := False, aborted := True\<rparr>, w))"
      "fst (onAbort (x\<lparr>abort_listener := False, aborted := True\<rparr>, w))
         = x\<lparr>abort_listener := False, aborted := True\<rparr>"
      by (rule onAbort_props [OF inv]; simp)+
    with inv show ?thesis
      by (simp add: st AbortFires settling_def)
  next
    case (ChildStdout str)
    from data_rel_inv [OF on_data_rel [OF s, of Stdout str] inv] inv show ?thesis
      by (simp add: st ChildStdout settling_def)
  next
    case (ChildStderr str)
    from data_rel_inv [OF on_data_rel [OF s, of Stderr str] inv] inv show ?thesis
      by (simp add: st ChildStderr settling_def)
  next
    case (PtyData str)
    from data_rel_inv [OF on_data_rel [OF s, of Stdout str] inv] inv show ?thesis
      by (simp add: st PtyData settling_def)
  next
    case (ChildExit code sig now)
    show ?thesis
    proof (cases "has_child x \<and> exit_listener x")
      case True
      have "heap w (sessionId_x (x\<lparr>exit_listener := False\<rparr>)) = Some s" using s by simp
      from handleExit_props [OF this, of code sig now] i True show ?thesis
        by (simp add: st ChildExit settling_def)
    next
      case False
      with inv i(4) show ?thesis by (auto simp: st ChildExit settling_def)
    qed
  next
    case (ChildError err now)
    show ?thesis
    proof (cases "has_child x \<and> error_listener x")
      case True
      have "heap w (sessionId_x (x\<lparr>error_listener := False\<rparr>)) = Some s" using s by simp
      from on_child_error_props [OF this, of err now] i True show ?thesis
        by (simp add: st ChildError settling_def)
    next
      case False
      with inv i(5) show ?thesis by (auto simp: st ChildError settling_def)
    qed
  next
    case (PtyExit code sig now)
    show ?thesis
    proof (cases "has_pty x")
      case True
      from handleExit_props [OF s i(1,2,6,7), of code "map_option SigNum sig" now] True
      show ?thesis by (simp add: st PtyExit settling_def)
    next
      case False
      with inv show ?thesis by (simp add: st PtyExit settling_def)
    qed
  qed
qed

lemma run_Nil: "run st [] = st"
  by (simp add: run_def)

lemma run_Cons: "run st (e # es) = run (step st e) es"
  by (simp add: run_def)


lemma run_props:
  "exec_inv st \<Longrightarrow>
   exec_inv (run st es)
   \<and> (settled (fst st) \<longrightarrow>
        settled (fst (run st es)) \<and> settlements (fst (run st es)) = settlements (fst st))
   \<and> ((\<exists>e \<in> set es. settling (fst st) e) \<longrightarrow> settled (fst (run st es)))
   \<and> has_child (fst (run st es)) = has_child (fst st)
   \<and> has_pty (fst (run st es)) = has_pty (fst st)
   \<and> sessionId_x (fst (run st es)) = sessionId_x (fst st)"
proof (induction es arbitrary: st)
  case Nil
  then show ?case by (simp add: run_Nil)
next
  case (Cons e es)
  note sp = step_props [OF Cons.prems, of e]
  from sp have inv': "exec_inv (step st e)" by simp
  note ih = Cons.IH [OF inv']
  have same: "\<And>e'. settling (fst (step st e)) e' = settling (fst st) e'"
    using sp by (simp add: settling_def split: event.splits)
  show ?case
  proof (intro conjI impI)
    show "exec_inv (run st (e # es))" using ih by (simp add: run_Cons)
    show "has_child (fst (run st (e # es))) = has_child (fst st)"
      "has_pty (fst (run st (e # es))) = has_pty (fst st)"
      "sessionId_x (fst (run st (e # es))) = sessionId_x (fst st)"
      using ih sp by (simp_all add: run_Cons)
  next
    assume "settled (fst st)"
    with sp have "settled (fst (step st e))"
      "settlements (fst (step st e)) = settlements (fst st)" by simp_all
    with ih show "settled (fst (run st (e # es)))"
      "settlements (fst (run st (e # es))) = settlements (fst st)"
      by (simp_all add: run_Cons)
  next
    assume "\<exists>e' \<in> set (e # es). settling (fst st) e'"
    then consider "settling (fst st) e" | "\<exists>e' \<in> set es. settling (fst (step st e)) e'"
      using same by auto
    then show "settled (fst (run st (e # es)))"
    proof cases
      case 1
      with sp have "settled (fst (step st e))" by simp
      with ih show ?thesis by (simp add: run_Cons)
    next
      case 2
      with ih show ?thesis by (simp add: run_Cons)
    qed
  qed
qed

lemma bash_start_props:
  assumes "bash_start d h w p = Inr st"
  shows "exec_inv st" and "sessionId_x (fst st) = uuid h"
    and "yieldWindow d h p = Fin 0 \<longrightarrow> settled (fst st)"
proof -
  from assms have ne: "p_command p \<noteq> []"
    by (auto simp: bash_start_def split: if_splits)
  obtain warn mode ch pt where ct: "choose_transport h p = (warn, mode, ch, pt)"
    by (cases "choose_transport h p") auto
  define s where "s = new_session h p mode ch pt"
  define x where "x = new_exec d h p warn (ch \<noteq> None) (pt \<noteq> None)"
  define st1 where "st1 = (if signal h = Some True then onAbort (x, addSession s w)
                           else (x, addSession s w))"
  have "bash_start d h w p
        = Inr (if yieldWindow d h p = Fin 0 then onYieldNow st1
               else (fst st1\<lparr>yieldTimer := True\<rparr>, snd st1))"
    unfolding bash_start_def ct s_def x_def st1_def using ne by (simp add: Let_def)
  with assms have st_eq: "st = (if yieldWindow d h p = Fin 0 then onYieldNow st1
                     else (fst st1\<lparr>yieldTimer := True\<rparr>, snd st1))"
    by simp
  have x1: "fst st1 = x" by (simp add: st1_def onAbort_eq)
  have "heap (addSession s w) (uuid h) = Some s"
    by (simp add: addSession_def s_def new_session_def)
  then have h1: "heap (snd st1) (sessionId_x x) = Some s"
    by (simp add: st1_def onAbort_eq x_def new_exec_def Let_def)
  have xs: "\<not> settled x" "\<not> yielded x" "settlements x = []" "sessionId_x x = uuid h"
    "has_child x = exit_listener x" "has_child x = error_listener x"
    by (simp_all add: x_def new_exec_def Let_def)
  have sb: "\<not> backgrounded s" by (simp add: s_def new_session_def)
  have "exec_inv st \<and> sessionId_x (fst st) = uuid h
        \<and> (yieldWindow d h p = Fin 0 \<longrightarrow> settled (fst st))" (is ?goal)
  proof (cases "yieldWindow d h p = Fin 0")
    case True
    have "onYieldNow st1 = yield_now (x\<lparr>yieldTimer := False\<rparr>, snd st1)"
      using x1 by (cases st1) (simp add: onYieldNow_def)
    with True st_eq have eq: "st = yield_now (x\<lparr>yieldTimer := False\<rparr>, snd st1)" by simp
    from yield_now_props [OF h1, of] xs sb True show ?goal
      by (simp add: eq)
  next
    case False
    with st_eq x1 have eq: "st = (x\<lparr>yieldTimer := True\<rparr>, snd st1)" by simp
    have "exec_inv (x\<lparr>yieldTimer := True\<rparr>, snd st1)"
      using h1 xs sb by (intro exec_invI [of _ _ s]) simp_all
    with False xs show ?goal by (simp add: eq)
  qed
  then show "exec_inv st" "sessionId_x (fst st) = uuid h"
    "yieldWindow d h p = Fin 0 \<longrightarrow> settled (fst st)"
    by simp_all
qed














lemma yield_now_static:
  "warning (fst (yield_now (x, w))) = warning x"
  "has_child (fst (yield_now (x, w))) = has_child x"
  "has_pty (fst (yield_now (x, w))) = has_pty x"
  "map_option stdinMode (heap (snd (yield_now (x, w))) i) = map_option stdinMode (heap w i)"
  by (auto simp: yield_now_def resolveRunning_def settle_def markBackgrounded_def
      split: option.splits)

lemma pty_fallback_start:
  assumes "p_command p \<noteq> []" and "p_stdinMode p = Some Pty"
    and "pty_backend h = LoadFails e \<or> pty_backend h = SpawnFails e"
  shows "\<exists>x w' t. bash_start d h w p = Inr (x, w')
           \<and> warning x = Some t
           \<and> prefix (js ''Warning: '') t \<and> suffix (js ''falling back to pipe mode.'') t
           \<and> has_child x \<and> \<not> has_pty x
           \<and> map_option stdinMode (heap w' (uuid h)) = Some Pipe"
proof -
  from choose_transport_fallback [OF assms(2,3)] obtain t where
    ct: "choose_transport h p = (Some t, Pipe, Some (spawn_pid h), None)"
    and t: "prefix (js ''Warning: '') t" "suffix (js ''falling back to pipe mode.'') t"
    by blast
  define s where "s = new_session h p Pipe (Some (spawn_pid h)) None"
  define x where "x = new_exec d h p (Some t) True False"
  define st1 where "st1 = (if signal h = Some True then onAbort (x, addSession s w)
                           else (x, addSession s w))"
  define st where "st = (if yieldWindow d h p = Fin 0 then onYieldNow st1
                         else (fst st1\<lparr>yieldTimer := True\<rparr>, snd st1))"
  have start: "bash_start d h w p = Inr st"
    unfolding bash_start_def ct s_def x_def st1_def st_def using assms(1) by (simp add: Let_def)
  have x1: "fst st1 = x" by (simp add: st1_def onAbort_eq)
  have "heap (addSession s w) (uuid h) = Some s"
    by (simp add: addSession_def s_def new_session_def)
  then have h1: "map_option stdinMode (heap (snd st1) (uuid h)) = Some Pipe"
    by (simp add: st1_def onAbort_eq) (simp add: s_def new_session_def)
  have xs: "warning x = Some t" "has_child x" "\<not> has_pty x"
    by (simp_all add: x_def new_exec_def Let_def)
  have "warning (fst st) = Some t \<and> has_child (fst st) \<and> \<not> has_pty (fst st)
        \<and> map_option stdinMode (heap (snd st) (uuid h)) = Some Pipe"
  proof (cases "yieldWindow d h p = Fin 0")
    case True
    have "onYieldNow st1 = yield_now (x\<lparr>yieldTimer := False\<rparr>, snd st1)"
      using x1 by (cases st1) (simp add: onYieldNow_def)
    with True have "st = yield_now (x\<lparr>yieldTimer := False\<rparr>, snd st1)"
      by (simp add: st_def)
    with xs h1 show ?thesis by (simp add: yield_now_static)
  next
    case False
    with x1 have "st = (x\<lparr>yieldTimer := True\<rparr>, snd st1)" by (simp add: st_def)
    with xs h1 show ?thesis by simp
  qed
  with start t show ?thesis
    by (intro exI [of _ "fst st"] exI [of _ "snd st"] exI [of _ t]) simp
qed

lemma foldl_data_fst:
  "\<exists>u. fst st' = x\<lparr>updates := u\<rparr> \<Longrightarrow>
   \<exists>u. fst (foldl (\<lambda>a chunk.
               emitUpdate (fst a, appendOutput (sessionId_x (fst a)) strm chunk (snd a)))
             st' cs) = x\<lparr>updates := u\<rparr>"
proof (induction cs arbitrary: st')
  case Nil
  then show ?case by simp
next
  case (Cons c cs)
  from Cons.prems obtain u where u: "fst st' = x\<lparr>updates := u\<rparr>" by blast
  obtain u' where e:
    "fst (emitUpdate (fst st', appendOutput (sessionId_x (fst st')) strm c (snd st')))
       = (fst st')\<lparr>updates := u'\<rparr>"
    using emitUpdate_eq(1) by metis
  have "fst (emitUpdate (fst st', appendOutput (sessionId_x (fst st')) strm c (snd st')))
       = x\<lparr>updates := u'\<rparr>"
    unfolding e by (simp add: u)
  then have "\<exists>v. fst (emitUpdate (fst st', appendOutput (sessionId_x (fst st')) strm c (snd st')))
       = x\<lparr>updates := v\<rparr>"
    by (rule exI)
  from Cons.IH [OF this] show ?case by simp
qed

lemma on_data_fst: "\<exists>u. fst (on_data strm str (x, w)) = x\<lparr>updates := u\<rparr>"
  unfolding on_data_def
  by (rule foldl_data_fst) (simp, rule exI [of _ "updates x"], simp)

lemma yield_now_quiet:
  assumes "settled x \<longrightarrow> yielded x"
  shows "settled (fst (yield_now (x, w))) \<longrightarrow> yielded (fst (yield_now (x, w)))"
    and "exit_listener (fst (yield_now (x, w))) = exit_listener x"
  using assms
  by (auto simp: yield_now_def resolveRunning_def settle_def split: option.splits)

lemma step_quiet:
  assumes "\<not> ends_run e" and "settled x \<longrightarrow> yielded x"
  shows "(settled (fst (step (x, w) e)) \<longrightarrow> yielded (fst (step (x, w) e)))
         \<and> exit_listener (fst (step (x, w) e)) = exit_listener x"
proof (cases e)
  case YieldTimerFires
  have "settled (x\<lparr>yieldTimer := False\<rparr>) \<longrightarrow> yielded (x\<lparr>yieldTimer := False\<rparr>)"
    using assms(2) by simp
  from yield_now_quiet [OF this, of w] assms(2) show ?thesis
    by (simp add: YieldTimerFires)
next
  case TimeoutTimerFires
  with assms(2) show ?thesis by (simp add: onAbort_eq)
next
  case AbortFires
  with assms(2) show ?thesis by (simp add: onAbort_eq)
next
  case (ChildStdout str)
  obtain u where "fst (on_data Stdout str (x, w)) = x\<lparr>updates := u\<rparr>"
    using on_data_fst by blast
  with assms(2) show ?thesis by (simp add: ChildStdout)
next
  case (ChildStderr str)
  obtain u where "fst (on_data Stderr str (x, w)) = x\<lparr>updates := u\<rparr>"
    using on_data_fst by blast
  with assms(2) show ?thesis by (simp add: ChildStderr)
next
  case (PtyData str)
  obtain u where "fst (on_data Stdout str (x, w)) = x\<lparr>updates := u\<rparr>"
    using on_data_fst by blast
  with assms(2) show ?thesis by (simp add: PtyData)
next
  case (ChildExit code sig now)
  with assms(1) show ?thesis by simp
next
  case (ChildError err now)
  with assms(1) show ?thesis by simp
next
  case (PtyExit code k now)
  with assms(1) show ?thesis by simp
qed

lemma run_quiet:
  "\<forall>e \<in> set es. \<not> ends_run e \<Longrightarrow> settled (fst st) \<longrightarrow> yielded (fst st) \<Longrightarrow>
   (settled (fst (run st es)) \<longrightarrow> yielded (fst (run st es)))
   \<and> exit_listener (fst (run st es)) = exit_listener (fst st)"
proof (induction es arbitrary: st)
  case Nil
  then show ?case by (simp add: run_Nil)
next
  case (Cons e es)
  obtain x w where st: "st = (x, w)" by (cases st)
  from Cons.prems have e: "\<not> ends_run e" and es: "\<forall>e \<in> set es. \<not> ends_run e"
    and j: "settled x \<longrightarrow> yielded x"
    by (simp_all add: st)
  note q = step_quiet [OF e j, of w]
  from q have "settled (fst (step st e)) \<longrightarrow> yielded (fst (step st e))" by (simp add: st)
  from Cons.IH [OF es this] q show ?case by (simp add: run_Cons st)
qed

lemma bash_start_quiet:
  assumes "bash_start d h w p = Inr st"
  shows "settled (fst st) \<longrightarrow> yielded (fst st)" and "exit_listener (fst st) = has_child (fst st)"
proof -
  from assms have ne: "p_command p \<noteq> []"
    by (auto simp: bash_start_def split: if_splits)
  obtain warn mode ch pt where ct: "choose_transport h p = (warn, mode, ch, pt)"
    by (cases "choose_transport h p") auto
  define s where "s = new_session h p mode ch pt"
  define x where "x = new_exec d h p warn (ch \<noteq> None) (pt \<noteq> None)"
  define st1 where "st1 = (if signal h = Some True then onAbort (x, addSession s w)
                           else (x, addSession s w))"
  have "bash_start d h w p
        = Inr (if yieldWindow d h p = Fin 0 then onYieldNow st1
               else (fst st1\<lparr>yieldTimer := True\<rparr>, snd st1))"
    unfolding bash_start_def ct s_def x_def st1_def using ne by (simp add: Let_def)
  with assms have st_eq: "st = (if yieldWindow d h p = Fin 0 then onYieldNow st1
                     else (fst st1\<lparr>yieldTimer := True\<rparr>, snd st1))"
    by simp
  have x1: "fst st1 = x" by (simp add: st1_def onAbort_eq)
  have xs: "\<not> settled x" "exit_listener x = has_child x"
    by (simp_all add: x_def new_exec_def Let_def)
  have "(settled (fst st) \<longrightarrow> yielded (fst st)) \<and> exit_listener (fst st) = has_child (fst st)"
  proof (cases "yieldWindow d h p = Fin 0")
    case True
    have "onYieldNow st1 = yield_now (x\<lparr>yieldTimer := False\<rparr>, snd st1)"
      using x1 by (cases st1) (simp add: onYieldNow_def)
    with True st_eq have eq: "st = yield_now (x\<lparr>yieldTimer := False\<rparr>, snd st1)" by simp
    have "settled (x\<lparr>yieldTimer := False\<rparr>) \<longrightarrow> yielded (x\<lparr>yieldTimer := False\<rparr>)"
      using xs by simp
    from yield_now_quiet [OF this, of "snd st1"] xs show ?thesis
      by (simp add: eq yield_now_static)
  next
    case False
    with st_eq x1 have "st = (x\<lparr>yieldTimer := True\<rparr>, snd st1)" by simp
    with xs show ?thesis by simp
  qed
  then show "settled (fst st) \<longrightarrow> yielded (fst st)"
    "exit_listener (fst st) = has_child (fst st)"
    by simp_all
qed

lemma exit_status_listener [simp]:
  "exit_status (x\<lparr>exit_listener := a\<rparr>) code sig = exit_status x code sig"
  "isSuccess (x\<lparr>exit_listener := a\<rparr>) code sig = isSuccess x code sig"
  "failure_reason (x\<lparr>exit_listener := a\<rparr>) code sig = failure_reason x code sig"
  by (simp_all add: exit_status_def isSuccess_def failure_reason_def)

lemma step_exit_event:
  assumes "exit_event x e = Some (code, sig)" and "has_child x \<longrightarrow> exit_listener x"
  shows "\<exists>now y. step (x, w) e = handleExit code sig now (y, w)
           \<and> sessionId_x y = sessionId_x x \<and> yielded y = yielded x \<and> settled y = settled x
           \<and> settlements y = settlements x
           \<and> exit_status y code sig = exit_status x code sig
           \<and> failure_reason y code sig = failure_reason x code sig"
proof (cases e)
  case (ChildExit c g now)
  with assms have "step (x, w) e = handleExit code sig now (x\<lparr>exit_listener := False\<rparr>, w)"
    by (simp split: if_splits)
  then show ?thesis
    by (intro exI [of _ now] exI [of _ "x\<lparr>exit_listener := False\<rparr>"]) simp
next
  case (PtyExit c k now)
  with assms have "step (x, w) e = handleExit code sig now (x, w)"
    by (auto split: if_splits)
  then show ?thesis
    by (intro exI [of _ now] exI [of _ x]) simp
qed (use assms in simp_all)

text \<open>
  C1, amended: take any bash invocation and any events after its start that do not end
  the run (no exit or error event yet). If the call has not been backgrounded and the
  process now exits, by the exit event of the child process or of the PTY, and the exit
  is not a success, the call is settled with exactly one rejection, whose message is the
  trimmed output (if any), a blank line, and a reason chosen in this order: if the
  timeout fired, \<open>Command timed out after N seconds\<close>, \<open>N\<close> being the timeout as JavaScript
  prints the number; else if death was by signal (an exit signal that names a signal),
  \<open>Command aborted by signal\<close> and the signal; else if no exit code was captured,
  \<open>Command aborted before exit code was captured\<close>; else \<open>Command exited with code N\<close>.
\<close>

theorem failure_reason_priority:
  assumes "bash_start d h w p = Inr st0"
    and "\<forall>e \<in> set es. \<not> ends_run e"
    and "run st0 es = (x, w')"
    and "heap w' (uuid h) = Some s"
    and "\<not> yielded x"
    and "exit_event x e = Some (code, sig)"
    and "exit_status x code sig = Failed"
  shows "settlements (fst (step (x, w') e))
           = [Rejected (ErrorObj
                (if trim (aggregated s) \<noteq> []
                 then trim (aggregated s) @ [LF, LF] @ failure_reason x code sig
                 else failure_reason x code sig))]
         \<and> (timedOut x \<longrightarrow>
              failure_reason x code sig
              = js ''Command timed out after '' @ number_text (effectiveTimeout x) @ js '' seconds'')
         \<and> (\<not> timedOut x \<and> died_by_signal sig \<longrightarrow>
              failure_reason x code sig
              = js ''Command aborted by signal ''
                @ (case sig of Some g \<Rightarrow> show_signal g | None \<Rightarrow> []))
         \<and> (\<not> timedOut x \<and> \<not> died_by_signal sig \<and> code = None \<longrightarrow>
              failure_reason x code sig = js ''Command aborted before exit code was captured'')
         \<and> (\<not> timedOut x \<and> \<not> died_by_signal sig \<and> code \<noteq> None \<longrightarrow>
              failure_reason x code sig
              = js ''Command exited with code ''
                @ (case code of Some c \<Rightarrow> show_int c | None \<Rightarrow> []))"
proof -
  note start = bash_start_props [OF assms(1)]
  note rp = run_props [OF start(1), of es]
  note q0 = bash_start_quiet [OF assms(1)]
  note q = run_quiet [OF assms(2) q0(1)]
  from rp assms(3) have inv: "exec_inv (x, w')" by simp
  from rp assms(3) start(2) have sid: "sessionId_x x = uuid h" by simp
  from inv obtain s' where s': "heap w' (sessionId_x x) = Some s'"
    and i: "backgrounded s' \<longrightarrow> yielded x" "\<not> settled x \<longrightarrow> settlements x = []"
    by (rule exec_invD)
  from s' sid assms(4) have same: "s' = s" by simp
  from q assms(3,5) have ns: "\<not> settled x" by simp
  from i assms(5) same have nb: "\<not> backgrounded s" by simp
  from q q0(2) rp assms(3) have "has_child x \<longrightarrow> exit_listener x" by simp
  from step_exit_event [OF assms(6) this, of w'] obtain now y where
    y: "step (x, w') e = handleExit code sig now (y, w')" "sessionId_x y = sessionId_x x"
      "yielded y = yielded x" "settled y = settled x" "settlements y = settlements x"
      "exit_status y code sig = exit_status x code sig"
      "failure_reason y code sig = failure_reason x code sig"
    by blast
  have hy: "heap w' (sessionId_x y) = Some s" using s' same y(2) by simp
  have "\<not> yielded y" "\<not> settled y" "exit_status y code sig = Failed"
    using y assms(5,7) ns by simp_all
  note f = handleExit_failure [OF hy nb this, of now]
  have first: "settlements (fst (step (x, w') e))
           = [Rejected (ErrorObj
                (if trim (aggregated s) \<noteq> []
                 then trim (aggregated s) @ [LF, LF] @ failure_reason x code sig
                 else failure_reason x code sig))]"
    using f [THEN conjunct1] y i(2) ns by simp
  from f [THEN conjunct2] have rest:
    "(timedOut y \<longrightarrow>
              failure_reason y code sig
              = js ''Command timed out after '' @ number_text (effectiveTimeout y) @ js '' seconds'')
         \<and> (\<not> timedOut y \<and> died_by_signal sig \<longrightarrow>
              failure_reason y code sig
              = js ''Command aborted by signal ''
                @ (case sig of Some g \<Rightarrow> show_signal g | None \<Rightarrow> []))
         \<and> (\<not> timedOut y \<and> \<not> died_by_signal sig \<and> code = None \<longrightarrow>
              failure_reason y code sig = js ''Command aborted before exit code was captured'')
         \<and> (\<not> timedOut y \<and> \<not> died_by_signal sig \<and> code \<noteq> None \<longrightarrow>
              failure_reason y code sig
              = js ''Command exited with code ''
                @ (case code of Some c \<Rightarrow> show_int c | None \<Rightarrow> []))" .
  have r1: "timedOut x \<longrightarrow>
              failure_reason x code sig
              = js ''Command timed out after '' @ number_text (effectiveTimeout x) @ js '' seconds''"
    by (simp add: failure_reason_def)
  have r2: "\<not> timedOut x \<and> died_by_signal sig \<longrightarrow>
              failure_reason x code sig
              = js ''Command aborted by signal ''
                @ (case sig of Some g \<Rightarrow> show_signal g | None \<Rightarrow> [])"
    by (auto simp: failure_reason_def died_by_signal_def split: option.splits)
  have r3: "\<not> timedOut x \<and> \<not> died_by_signal sig \<and> code = None \<longrightarrow>
              failure_reason x code sig = js ''Command aborted before exit code was captured''"
    by (auto simp: failure_reason_def died_by_signal_def split: option.splits)
  have r4: "\<not> timedOut x \<and> \<not> died_by_signal sig \<and> code \<noteq> None \<longrightarrow>
              failure_reason x code sig
              = js ''Command exited with code ''
                @ (case code of Some c \<Rightarrow> show_int c | None \<Rightarrow> [])"
    by (auto simp: failure_reason_def died_by_signal_def split: option.splits)
  from first r1 r2 r3 r4 show ?thesis by (intro conjI)
qed

theorem failure_reason_priority_witness:
  "bash_start example_defaults example_host empty_world (plain_params (js ''sleep 60'') (Fin 1))
   = Inr (plain_state (js ''sleep 60'') (Fin 1) (Some 77))
   \<and> \<not> ends_run TimeoutTimerFires
   \<and> heap (snd (run (plain_state (js ''sleep 60'') (Fin 1) (Some 77)) [TimeoutTimerFires]))
        (uuid example_host) \<noteq> None
   \<and> \<not> yielded (fst (run (plain_state (js ''sleep 60'') (Fin 1) (Some 77)) [TimeoutTimerFires]))
   \<and> exit_event (fst (run (plain_state (js ''sleep 60'') (Fin 1) (Some 77)) [TimeoutTimerFires]))
        (ChildExit None (Some SIGKILL) 2001) = Some (None, Some SIGKILL)
   \<and> exit_status (fst (run (plain_state (js ''sleep 60'') (Fin 1) (Some 77)) [TimeoutTimerFires]))
        None (Some SIGKILL) = Failed
   \<and> settlements
        (fst (step (run (plain_state (js ''sleep 60'') (Fin 1) (Some 77)) [TimeoutTimerFires])
           (ChildExit None (Some SIGKILL) 2001)))
      = [Rejected (ErrorObj (js ''Command timed out after 1 seconds''))]"
proof -
  let ?st = "run (plain_state (js ''sleep 60'') (Fin 1) (Some 77)) [TimeoutTimerFires]"
  have ne: "js ''sleep 60'' \<noteq> []" by (simp add: js_def)
  have hst: "example_host\<lparr>spawn_pid := Some 77\<rparr> = example_host"
    by (simp add: example_host_def)
  from plain_start [OF ne, of "Some 77" "Fin 1"]
  have start: "bash_start example_defaults example_host empty_world
                 (plain_params (js ''sleep 60'') (Fin 1))
               = Inr (plain_state (js ''sleep 60'') (Fin 1) (Some 77))"
    by (simp only: hst)
  have quiet: "\<forall>e \<in> set [TimeoutTimerFires]. \<not> ends_run e" by simp
  have st: "?st = (fst ?st, snd ?st)" by simp
  have x: "fst ?st = (fst (plain_state (js ''sleep 60'') (Fin 1) (Some 77)))
                       \<lparr>timeoutTimer := False, timedOut := True\<rparr>"
    by (simp add: run_def plain_state_def onAbort_def)
  obtain s where s: "heap (snd ?st) (uuid example_host) = Some s" "aggregated s = []"
    by (simp add: run_def plain_state_def onAbort_def killSession_def example_host_def)
  have c: "\<not> yielded (fst ?st)" "timedOut (fst ?st)" "effectiveTimeout (fst ?st) = Fin 1"
    "has_child (fst ?st)"
    by (simp_all add: x) (simp_all add: plain_state_def)
  have ev: "exit_event (fst ?st) (ChildExit None (Some SIGKILL) 2001) = Some (None, Some SIGKILL)"
    using c(4) by simp
  have e: "exit_status (fst ?st) None (Some SIGKILL) = Failed"
    by (simp add: exit_status_def isSuccess_def)
  have m: "js ''Command timed out after '' @ js ''1'' @ js '' seconds''
           = js ''Command timed out after 1 seconds''"
    by (simp add: js_def)
  note t = failure_reason_priority [OF start quiet st s(1) c(1) ev e]
  from t [THEN conjunct2, THEN conjunct1] c(2,3)
  have r: "failure_reason (fst ?st) None (Some SIGKILL) = js ''Command timed out after 1 seconds''"
    by (simp add: number_text_1 m)
  from t [THEN conjunct1] r s(2)
  have "settlements (fst (step (fst ?st, snd ?st) (ChildExit None (Some SIGKILL) 2001)))
      = [Rejected (ErrorObj (js ''Command timed out after 1 seconds''))]"
    by (simp add: trim_Nil del: step.simps)
  then have last: "settlements (fst (step ?st (ChildExit None (Some SIGKILL) 2001)))
      = [Rejected (ErrorObj (js ''Command timed out after 1 seconds''))]"
    by (simp only: prod.collapse)
  from s(1) have hs: "heap (snd ?st) (uuid example_host) \<noteq> None" by simp
  have q1: "\<not> ends_run TimeoutTimerFires" by simp
  from start q1 hs c(1) ev e last show ?thesis by (intro conjI)
qed

text \<open>
  C1 as stated fails for a run that ends with the \<open>error\<close> event of the child process
  instead of an exit: when the shell cannot be spawned, the call, not backgrounded, is
  rejected with the spawn error itself and the session is recorded as failed with no
  exit code. No timeout fired, no signal was reported and no exit code was captured, so
  the priority order asks for \<open>Command aborted before exit code was captured\<close>.
\<close>

theorem failure_reason_counterexample:
  "bash_start example_defaults (example_host\<lparr>spawn_pid := None\<rparr>) empty_world
     (plain_params (js ''ls'') (Fin 1))
   = Inr (plain_state (js ''ls'') (Fin 1) None)
   \<and> \<not> yielded (fst (run (plain_state (js ''ls'') (Fin 1) None)
          [ChildError (ErrorObj (js ''spawn /bin/sh ENOENT'')) 1002]))
   \<and> map_option backgrounded
        (heap (snd (run (plain_state (js ''ls'') (Fin 1) None)
           [ChildError (ErrorObj (js ''spawn /bin/sh ENOENT'')) 1002])) (js ''u1''))
      = Some False
   \<and> map_option status
        (finished (snd (run (plain_state (js ''ls'') (Fin 1) None)
           [ChildError (ErrorObj (js ''spawn /bin/sh ENOENT'')) 1002])) (js ''u1''))
      = Some Failed
   \<and> map_option exitCode
        (finished (snd (run (plain_state (js ''ls'') (Fin 1) None)
           [ChildError (ErrorObj (js ''spawn /bin/sh ENOENT'')) 1002])) (js ''u1''))
      = Some None
   \<and> failure_reason (fst (plain_state (js ''ls'') (Fin 1) None)) None None
      = js ''Command aborted before exit code was captured''
   \<and> settlements (fst (run (plain_state (js ''ls'') (Fin 1) None)
        [ChildError (ErrorObj (js ''spawn /bin/sh ENOENT'')) 1002]))
      = [Rejected (ErrorObj (js ''spawn /bin/sh ENOENT''))]"
proof -
  have ne: "js ''ls'' \<noteq> []" by (simp add: js_def)
  note start = plain_start [OF ne, of None "Fin 1"]
  have r: "failure_reason (fst (plain_state (js ''ls'') (Fin 1) None)) None None
      = js ''Command aborted before exit code was captured''"
    by (simp add: failure_reason_def plain_state_def)
  have rest: "\<not> yielded (fst (run (plain_state (js ''ls'') (Fin 1) None)
          [ChildError (ErrorObj (js ''spawn /bin/sh ENOENT'')) 1002]))
   \<and> map_option backgrounded
        (heap (snd (run (plain_state (js ''ls'') (Fin 1) None)
           [ChildError (ErrorObj (js ''spawn /bin/sh ENOENT'')) 1002])) (js ''u1''))
      = Some False
   \<and> map_option status
        (finished (snd (run (plain_state (js ''ls'') (Fin 1) None)
           [ChildError (ErrorObj (js ''spawn /bin/sh ENOENT'')) 1002])) (js ''u1''))
      = Some Failed
   \<and> map_option exitCode
        (finished (snd (run (plain_state (js ''ls'') (Fin 1) None)
           [ChildError (ErrorObj (js ''spawn /bin/sh ENOENT'')) 1002])) (js ''u1''))
      = Some None
   \<and> settlements (fst (run (plain_state (js ''ls'') (Fin 1) None)
        [ChildError (ErrorObj (js ''spawn /bin/sh ENOENT'')) 1002]))
      = [Rejected (ErrorObj (js ''spawn /bin/sh ENOENT''))]"
    by (simp add: run_def plain_state_def on_child_error_def markExited_def Let_def
        settle_def finished_entry_def)
  from start r rest show ?thesis by (simp only: simp_thms)
qed

lemma timeout_text_examples:
  "timedOut x \<Longrightarrow> effectiveTimeout x = Fin (1 / 2) \<Longrightarrow>
   failure_reason x code sig = js ''Command timed out after 0.5 seconds''"
  "timedOut x \<Longrightarrow> effectiveTimeout x = Fin (10 ^ 21) \<Longrightarrow>
   failure_reason x code sig = js ''Command timed out after 1e+21 seconds''"
  "timedOut x \<Longrightarrow> effectiveTimeout x = PosInf \<Longrightarrow>
   failure_reason x code sig = js ''Command timed out after Infinity seconds''"
proof -
  have m: "js ''Command timed out after '' @ js ''0.5'' @ js '' seconds''
           = js ''Command timed out after 0.5 seconds''"
    "js ''Command timed out after '' @ js ''1e+21'' @ js '' seconds''
           = js ''Command timed out after 1e+21 seconds''"
    "js ''Command timed out after '' @ js ''Infinity'' @ js '' seconds''
           = js ''Command timed out after Infinity seconds''"
    by (simp_all add: js_def)
  show "timedOut x \<Longrightarrow> effectiveTimeout x = Fin (1 / 2) \<Longrightarrow>
   failure_reason x code sig = js ''Command timed out after 0.5 seconds''"
    by (simp add: failure_reason_def number_text_half m)
  show "timedOut x \<Longrightarrow> effectiveTimeout x = Fin (10 ^ 21) \<Longrightarrow>
   failure_reason x code sig = js ''Command timed out after 1e+21 seconds''"
    using number_text_e21 by (simp add: failure_reason_def m)
  show "timedOut x \<Longrightarrow> effectiveTimeout x = PosInf \<Longrightarrow>
   failure_reason x code sig = js ''Command timed out after Infinity seconds''"
    by (simp add: failure_reason_def number_text_special m)
qed

subsection \<open>The controller after a foreground run\<close>

lemma chunkString_short:
  "input \<noteq> [] \<Longrightarrow> length input \<le> CHUNK_LIMIT \<Longrightarrow> chunkString input = [input]"
  by (simp add: chunkString.simps [of input] chunkString.simps [of "[]"])

lemma trim_hi: "trim (js ''hi\<newline>'') = js ''hi''"
  by (simp add: trim_def trimStart_def trimEnd_def js_def is_js_space_def)

text \<open>
  C6 as stated fails for a session that was never backgrounded and has finished: a
  foreground \<open>echo hi\<close> that exits with code 0 before the yield timer fires leaves a
  finished entry whose session was not backgrounded, and a \<open>poll\<close> on it returns the exit
  report with status \<open>completed\<close>, not a failure result.
\<close>

theorem poll_not_backgrounded_counterexample:
  "bash_start example_defaults example_host empty_world (plain_params (js ''echo hi'') (Fin 1))
   = Inr (plain_state (js ''echo hi'') (Fin 1) (Some 77))
   \<and> map_option backgrounded
        (heap (snd (run (plain_state (js ''echo hi'') (Fin 1) (Some 77))
                 [ChildStdout (js ''hi\<newline>''), ChildExit (Some 0) None 1005])) (js ''u1''))
      = Some False
   \<and> getSession (snd (run (plain_state (js ''echo hi'') (Fin 1) (Some 77))
                 [ChildStdout (js ''hi\<newline>''), ChildExit (Some 0) None 1005])) (js ''u1'')
      = None
   \<and> map_option status
        (getFinishedSession (snd (run (plain_state (js ''echo hi'') (Fin 1) (Some 77))
                 [ChildStdout (js ''hi\<newline>''), ChildExit (Some 0) None 1005])) (js ''u1''))
      = Some Completed
   \<and> r_status (fst (process_execute
        (snd (run (plain_state (js ''echo hi'') (Fin 1) (Some 77))
                 [ChildStdout (js ''hi\<newline>''), ChildExit (Some 0) None 1005]))
        2000 \<lparr>action = Poll, sessionId = Some (js ''u1''), offset = None, limit = None\<rparr>))
      = Completed
   \<and> r_text (fst (process_execute
        (snd (run (plain_state (js ''echo hi'') (Fin 1) (Some 77))
                 [ChildStdout (js ''hi\<newline>''), ChildExit (Some 0) None 1005]))
        2000 \<lparr>action = Poll, sessionId = Some (js ''u1''), offset = None, limit = None\<rparr>))
      = js ''hi\<newline>\<newline>\<newline>Process exited with code 0.''"
proof -
  let ?w = "snd (run (plain_state (js ''echo hi'') (Fin 1) (Some 77))
                 [ChildStdout (js ''hi\<newline>''), ChildExit (Some 0) None 1005])"
  have ne: "js ''echo hi'' \<noteq> []" by (simp add: js_def)
  have hst: "example_host\<lparr>spawn_pid := Some 77\<rparr> = example_host"
    by (simp add: example_host_def)
  from plain_start [OF ne, of "Some 77" "Fin 1"]
  have start: "bash_start example_defaults example_host empty_world
                 (plain_params (js ''echo hi'') (Fin 1))
               = Inr (plain_state (js ''echo hi'') (Fin 1) (Some 77))"
    by (simp only: hst)
  have ch: "chunkString (js ''hi\<newline>'') = [js ''hi\<newline>'']"
    by (rule chunkString_short) (simp_all add: js_def CHUNK_LIMIT_def)
  have id: "js ''u1'' \<noteq> []" by (simp add: js_def)
  have len: "length (js ''hi\<newline>'') = 3" by (simp add: js_def)
  have w: "heap ?w (js ''u1'') \<noteq> None \<and> map_option backgrounded (heap ?w (js ''u1'')) = Some False
      \<and> js ''u1'' \<notin> running ?w
      \<and> map_option status (finished ?w (js ''u1'')) = Some Completed
      \<and> map_option tail (finished ?w (js ''u1'')) = Some (js ''hi\<newline>'')
      \<and> map_option exitCode (finished ?w (js ''u1'')) = Some (Some 0)
      \<and> map_option exitSignal (finished ?w (js ''u1'')) = Some None"
    by (simp add: run_def plain_state_def on_data_def ch appendOutput_def emitUpdate_def
        handleExit_def markExited_def exit_status_def isSuccess_def settle_def Let_def
        finished_entry_def trim_hi len)
  then obtain f where f: "finished ?w (js ''u1'') = Some f" "status f = Completed"
    "tail f = js ''hi\<newline>''" "exitCode f = Some 0" "exitSignal f = None"
    by (cases "finished ?w (js ''u1'')") auto
  from w have g: "getSession ?w (js ''u1'') = None" by (simp add: getSession_def)
  have m: "js ''hi\<newline>'' @ [LF, LF] @ js ''Process exited with '' @ js ''code '' @ js ''0'' @ js ''.''
           = js ''hi\<newline>\<newline>\<newline>Process exited with code 0.''"
    by (simp add: js_def LF_def)
  have t: "tail f \<noteq> []" by (simp add: f js_def)
  have p: "process_execute ?w 2000
             \<lparr>action = Poll, sessionId = Some (js ''u1''), offset = None, limit = None\<rparr>
           = (poll_finished (js ''u1'') f, ?w)"
    using id g f(1) by (simp add: process_execute_def poll_action_def getFinishedSession_def)
  have r: "r_status (poll_finished (js ''u1'') f) = Completed"
    "r_text (poll_finished (js ''u1'') f) = js ''hi\<newline>\<newline>\<newline>Process exited with code 0.''"
    using t f m by (simp_all add: poll_finished_def plain_result_def exit_phrase_def show_int_0)
  from w have b: "map_option backgrounded (heap ?w (js ''u1'')) = Some False" by simp
  from f have fs: "map_option status (getFinishedSession ?w (js ''u1'')) = Some Completed"
    by (simp add: getFinishedSession_def)
  from start b g fs r show ?thesis
    unfolding p by (simp only: fst_conv simp_thms)
qed

end
